theory Spec2Isabelle
  imports Main
begin

section \<open>The notes application: data model\<close>

text \<open>
  The application is a single React component, \<^verbatim>\<open>NotesApp\<close> in \<^verbatim>\<open>src/App.jsx\<close>, with four
  pieces of state (\<^verbatim>\<open>notes\<close>, \<^verbatim>\<open>formData\<close>, \<^verbatim>\<open>file\<close>, \<^verbatim>\<open>busy\<close>) and three asynchronous
  workflows (\<^verbatim>\<open>fetchNotes\<close>, \<^verbatim>\<open>createNote\<close>, \<^verbatim>\<open>deleteNote\<close>) that call the data client and
  the storage functions of the backend platform.  The backend is not part of the
  program: it is a parameter of the model, a record of handlers that may answer
  every call with any value of the right shape or throw, and that thread a state of
  their own (the type variable \<open>'w\<close>) from one call to the next.
\<close>

subsection \<open>Values\<close>

text \<open>A thrown value.  \<open>TypeError\<close> is what reading a property of \<^verbatim>\<open>null\<close> or
  \<^verbatim>\<open>undefined\<close> throws; \<open>RemoteError\<close> is a rejection of a backend call.\<close>

datatype error = TypeError | RemoteError string

text \<open>
  Modelled from the spec: the schema of the Note model, which the backend's resource
  definition declares and which is not among the sources.  Section 3 of the specification
  gives a Note the fields \<^verbatim>\<open>id\<close>, \<^verbatim>\<open>title\<close>, \<^verbatim>\<open>content\<close> and an optional \<^verbatim>\<open>imagePath\<close>; these are
  also the fields the component reads and writes.  The derived \<^verbatim>\<open>imageUrl\<close> is not a field
  of the stored record.
\<close>

record NoteRecord =
  id' :: string
  title :: string
  content :: string
  imagePath :: "string option"

text \<open>
  An entry of the in-memory list: a record, and the \<^verbatim>\<open>imageUrl\<close> that
  \<^verbatim>\<open>{ ...n, imageUrl: url }\<close> adds to it.  \<open>plain n\<close> is the record \<open>n\<close> itself, with no
  \<^verbatim>\<open>imageUrl\<close> property.
\<close>

record Note =
  stored :: NoteRecord
  imageUrl :: "string option"

definition plain :: "NoteRecord \<Rightarrow> Note" where
  "plain n = \<lparr>stored = n, imageUrl = None\<rparr>"

definition with_url :: "NoteRecord \<Rightarrow> string \<Rightarrow> Note" where
  "with_url n url = \<lparr>stored = n, imageUrl = Some url\<rparr>"

text \<open>JavaScript truthiness of an optional string, as tested by \<^verbatim>\<open>if (n.imagePath)\<close>:
  \<^verbatim>\<open>undefined\<close>, \<^verbatim>\<open>null\<close> and the empty string are falsy.\<close>

definition truthy :: "string option \<Rightarrow> bool" where
  "truthy p = (case p of None \<Rightarrow> False | Some s \<Rightarrow> s \<noteq> [])"

text \<open>The selected file: its name and its declared content type (\<^verbatim>\<open>file.type\<close>).\<close>

record File =
  name :: string
  type' :: string

text \<open>The draft form, \<^verbatim>\<open>formData\<close>.\<close>

record form =
  title' :: string
  content' :: string

text \<open>
  The state of the component.  An entry of \<open>notes\<close> is \<open>None\<close> when the value put into
  the list is \<^verbatim>\<open>null\<close> (the \<^verbatim>\<open>data\<close> of a response can be).
\<close>

record ui =
  "notes" :: "Note option list"
  formData :: form
  "file" :: "File option"
  busy :: bool

definition initial_ui :: ui where
  "initial_ui = \<lparr>notes = [], formData = \<lparr>title' = [], content' = []\<rparr>, file = None, busy = False\<rparr>"

subsection \<open>The backend\<close>

text \<open>
  The object a call of the data client resolves to: \<^verbatim>\<open>{ data, ... }\<close>, where \<^verbatim>\<open>data\<close>
  may be \<^verbatim>\<open>null\<close>.  \<open>Nullish\<close> is a response that is itself \<^verbatim>\<open>null\<close> or \<^verbatim>\<open>undefined\<close>.
\<close>

datatype 'a resp = Nullish | Resp "'a option"

text \<open>The argument object of a data-client call, as a list of its properties.\<close>

type_synonym payload = "(string \<times> string) list"

record 'w backend =
  Note_list :: "'w \<Rightarrow> (error + NoteRecord list resp) \<times> 'w"
  Note_create :: "payload \<Rightarrow> 'w \<Rightarrow> (error + NoteRecord resp) \<times> 'w"
  Note_update :: "payload \<Rightarrow> 'w \<Rightarrow> (error + NoteRecord resp) \<times> 'w"
  Note_delete :: "payload \<Rightarrow> 'w \<Rightarrow> (error + unit) \<times> 'w"
  uploadData :: "string \<Rightarrow> File \<Rightarrow> string \<Rightarrow> 'w \<Rightarrow> (error + string) \<times> 'w"
  getUrl :: "string \<Rightarrow> 'w \<Rightarrow> (error + string) \<times> 'w"
  remove' :: "string \<Rightarrow> 'w \<Rightarrow> (error + unit) \<times> 'w"

text \<open>What a workflow does that can be observed from outside, in order.\<close>

datatype call =
    ListCall
  | CreateCall payload
  | UpdateCall payload
  | DeleteCall payload
  | UploadCall string File string
  | GetUrlCall string
  | RemoveCall string

datatype event =
    SetBusy bool
  | Remote call
  | ConsoleError string
  | Alert string

text \<open>
  A run: the component state, the backend state, the events so far, and the error
  of a state updater that threw (React calls the updater outside the workflow's
  \<^verbatim>\<open>try\<close>, so that error is caught by nothing).
\<close>

record 'w run =
  ui :: ui
  world :: 'w
  trace :: "event list"
  uncaught :: "error option"

definition start :: "ui \<Rightarrow> 'w \<Rightarrow> 'w run" where
  "start s w = \<lparr>ui = s, world = w, trace = [], uncaught = None\<rparr>"

subsection \<open>Primitive steps\<close>

definition emit :: "event \<Rightarrow> 'w run \<Rightarrow> 'w run" where
  "emit e st = st\<lparr>trace := trace st @ [e]\<rparr>"

definition setBusy :: "bool \<Rightarrow> 'w run \<Rightarrow> 'w run" where
  "setBusy b st = emit (SetBusy b) (st\<lparr>ui := (ui st)\<lparr>busy := b\<rparr>\<rparr>)"

definition alert :: "string \<Rightarrow> 'w run \<Rightarrow> 'w run" where
  "alert m st = emit (Alert m) st"

definition console_error :: "string \<Rightarrow> 'w run \<Rightarrow> 'w run" where
  "console_error m st = emit (ConsoleError m) st"

text \<open>An awaited backend call: the call is recorded, the handler answers and moves the
  backend state.\<close>

definition await :: "call \<Rightarrow> ('w \<Rightarrow> 'a \<times> 'w) \<Rightarrow> 'w run \<Rightarrow> 'a \<times> 'w run" where
  "await c h st = (case h (world st) of (r, w1) \<Rightarrow> (r, (emit (Remote c) st)\<lparr>world := w1\<rparr>))"

text \<open>\<^verbatim>\<open>setNotes\<close> with a value, and with an updater applied to the current list.  An
  updater that throws leaves the list alone and its error uncaught.\<close>

definition setNotes :: "Note option list \<Rightarrow> 'w run \<Rightarrow> 'w run" where
  "setNotes ns st = st\<lparr>ui := (ui st)\<lparr>notes := ns\<rparr>\<rparr>"

definition setNotes_with :: "(Note option list \<Rightarrow> error + Note option list) \<Rightarrow> 'w run \<Rightarrow> 'w run" where
  "setNotes_with f st =
     (case f (notes (ui st)) of
        Inl e \<Rightarrow> st\<lparr>uncaught := Some e\<rparr>
      | Inr ns \<Rightarrow> setNotes ns st)"

definition setFormData :: "form \<Rightarrow> 'w run \<Rightarrow> 'w run" where
  "setFormData fd st = st\<lparr>ui := (ui st)\<lparr>formData := fd\<rparr>\<rparr>"

definition setFile :: "File option \<Rightarrow> 'w run \<Rightarrow> 'w run" where
  "setFile f st = st\<lparr>ui := (ui st)\<lparr>file := f\<rparr>\<rparr>"

section \<open>The workflows\<close>

subsection \<open>fetchNotes\<close>

text \<open>
  \<^verbatim>\<open>resp?.data ?? []\<close>: the records listed, or the empty list when the response or its
  \<^verbatim>\<open>data\<close> is nullish.
\<close>

definition items_of :: "NoteRecord list resp \<Rightarrow> NoteRecord list" where
  "items_of resp = (case resp of Nullish \<Rightarrow> [] | Resp None \<Rightarrow> [] | Resp (Some xs) \<Rightarrow> xs)"

text \<open>
  The function mapped over the items:
  \<^verbatim>\<open>async (n) => { if (n.imagePath) { const { url } = await getUrl({ path: n.imagePath });
                     return { ...n, imageUrl: url } } return n }\<close>
\<close>

definition hydrate :: "'w backend \<Rightarrow> NoteRecord \<Rightarrow> 'w run \<Rightarrow> (error + Note) \<times> 'w run" where
  "hydrate B n st =
     (if truthy (imagePath n) then
        (case await (GetUrlCall (the (imagePath n))) (getUrl B (the (imagePath n))) st of
           (Inl e, st1) \<Rightarrow> (Inl e, st1)
         | (Inr url, st1) \<Rightarrow> (Inr (with_url n url), st1))
      else (Inr (plain n), st))"

text \<open>
  \<^verbatim>\<open>items.map(async ...)\<close> starts every resolution, in list order, before any of them
  settles: each \<^verbatim>\<open>getUrl\<close> call is issued whether or not an earlier one is going to fail.
\<close>

fun hydrate_all :: "'w backend \<Rightarrow> NoteRecord list \<Rightarrow> 'w run \<Rightarrow> (error + Note) list \<times> 'w run" where
  "hydrate_all B [] st = ([], st)"
| "hydrate_all B (n # ns) st =
     (case hydrate B n st of (r, st1) \<Rightarrow>
        (case hydrate_all B ns st1 of (rs, st2) \<Rightarrow> (r # rs, st2)))"

text \<open>
  \<^verbatim>\<open>await Promise.all(...)\<close>: the values in order when every promise fulfils, a rejection
  otherwise.  Which rejection is observed depends on the order of arrival; the handler
  of \<^verbatim>\<open>fetchNotes\<close> only logs it, and the model takes the first in list order.
\<close>

fun promise_all :: "(error + 'a) list \<Rightarrow> error + 'a list" where
  "promise_all [] = Inr []"
| "promise_all (Inl e # rs) = Inl e"
| "promise_all (Inr v # rs) = (case promise_all rs of Inl e \<Rightarrow> Inl e | Inr vs \<Rightarrow> Inr (v # vs))"

definition fetchNotes_try :: "'w backend \<Rightarrow> 'w run \<Rightarrow> (error + unit) \<times> 'w run" where
  "fetchNotes_try B st =
     (case await ListCall (Note_list B) (setBusy True st) of
        (Inl e, st1) \<Rightarrow> (Inl e, st1)
      | (Inr resp, st1) \<Rightarrow>
          (case hydrate_all B (items_of resp) st1 of (rs, st2) \<Rightarrow>
             (case promise_all rs of
                Inl e \<Rightarrow> (Inl e, st2)
              | Inr withUrls \<Rightarrow> (Inr (), setNotes (map Some withUrls) st2))))"

definition fetchNotes :: "'w backend \<Rightarrow> ui \<Rightarrow> 'w \<Rightarrow> 'w run" where
  "fetchNotes B s w =
     (case fetchNotes_try B (start s w) of
        (Inl err, st) \<Rightarrow>
          setBusy False
            (alert ''Error fetching notes. Check console for details.''
               (console_error ''Error fetching notes:'' st))
      | (Inr u, st) \<Rightarrow> setBusy False st)"

subsection \<open>createNote\<close>

text \<open>Step 3 of the \<^verbatim>\<open>try\<close> block: append \<open>newNote\<close> (which may be \<^verbatim>\<open>null\<close>), clear the
  form and the file selection.\<close>

definition refresh_ui :: "NoteRecord option \<Rightarrow> 'w run \<Rightarrow> 'w run" where
  "refresh_ui newNote st =
     setFile None
       (setFormData \<lparr>title' = [], content' = []\<rparr>
          (setNotes_with (\<lambda>prev. Inr (prev @ [map_option plain newNote])) st))"

definition createNote_try :: "'w backend \<Rightarrow> 'w run \<Rightarrow> (error + unit) \<times> 'w run" where
  "createNote_try B st0 =
     (let fd = formData (ui st0); f = file (ui st0);
          p = [(''title'', title' fd), (''content'', content' fd)]
      in case await (CreateCall p) (Note_create B p) (setBusy True st0) of
           (Inl e, st1) \<Rightarrow> (Inl e, st1)
         | (Inr Nullish, st1) \<Rightarrow> (Inl TypeError, st1)
         | (Inr (Resp newNote), st1) \<Rightarrow>
             (case (f, newNote) of
                (Some fl, Some nn) \<Rightarrow>
                  (let path = ''images/'' @ id' nn @ ''-'' @ name fl
                   in case await (UploadCall path fl (type' fl)) (uploadData B path fl (type' fl)) st1 of
                        (Inl e, st2) \<Rightarrow> (Inl e, st2)
                      | (Inr result_path, st2) \<Rightarrow>
                          (let q = [(''id'', id' nn), (''imagePath'', result_path)]
                           in case await (UpdateCall q) (Note_update B q) st2 of
                                (Inl e, st3) \<Rightarrow> (Inl e, st3)
                              | (Inr Nullish, st3) \<Rightarrow> (Inl TypeError, st3)
                              | (Inr (Resp updated), st3) \<Rightarrow> (Inr (), refresh_ui updated st3)))
              | _ \<Rightarrow> (Inr (), refresh_ui newNote st1)))"

definition createNote :: "'w backend \<Rightarrow> ui \<Rightarrow> 'w \<Rightarrow> 'w run" where
  "createNote B s w =
     (if title' (formData s) = [] \<or> content' (formData s) = [] then
        alert ''Please provide a title and content'' (start s w)
      else
        (case createNote_try B (start s w) of
           (Inl err, st) \<Rightarrow>
             setBusy False
               (alert ''Error creating note. Check console for details.''
                  (console_error ''Error creating note:'' st))
         | (Inr u, st) \<Rightarrow> setBusy False st))"

subsection \<open>deleteNote\<close>

text \<open>
  The updater \<^verbatim>\<open>(prev) => prev.filter((n) => n.id !== note.id)\<close>.  Reading \<^verbatim>\<open>n.id\<close> of a
  \<^verbatim>\<open>null\<close> entry throws.
\<close>

fun filter_out :: "string \<Rightarrow> Note option list \<Rightarrow> error + Note option list" where
  "filter_out i [] = Inr []"
| "filter_out i (None # ns) = Inl TypeError"
| "filter_out i (Some n # ns) =
     (case filter_out i ns of
        Inl e \<Rightarrow> Inl e
      | Inr r \<Rightarrow> Inr (if id' (stored n) \<noteq> i then Some n # r else r))"

definition deleteNote_try :: "'w backend \<Rightarrow> Note \<Rightarrow> 'w run \<Rightarrow> (error + unit) \<times> 'w run" where
  "deleteNote_try B n st0 =
     (case (if truthy (imagePath (stored n)) then
              await (RemoveCall (the (imagePath (stored n)))) (remove' B (the (imagePath (stored n))))
                (setBusy True st0)
            else (Inr (), setBusy True st0)) of
        (Inl e, st1) \<Rightarrow> (Inl e, st1)
      | (Inr u, st1) \<Rightarrow>
          (let q = [(''id'', id' (stored n))]
           in case await (DeleteCall q) (Note_delete B q) st1 of
                (Inl e, st2) \<Rightarrow> (Inl e, st2)
              | (Inr v, st2) \<Rightarrow> (Inr (), setNotes_with (filter_out (id' (stored n))) st2)))"

text \<open>\<open>confirmed\<close> is the answer to \<^verbatim>\<open>confirm('Delete this note?')\<close>.\<close>

definition deleteNote :: "'w backend \<Rightarrow> bool \<Rightarrow> Note \<Rightarrow> ui \<Rightarrow> 'w \<Rightarrow> 'w run" where
  "deleteNote B confirmed n s w =
     (if \<not> confirmed then start s w
      else
        (case deleteNote_try B n (start s w) of
           (Inl err, st) \<Rightarrow>
             setBusy False
               (alert ''Error deleting note. Check console for details.''
                  (console_error ''Error deleting note:'' st))
         | (Inr u, st) \<Rightarrow> setBusy False st))"

section \<open>Observations on a run\<close>

text \<open>The backend calls of a trace, in the order they were issued.\<close>

fun calls :: "event list \<Rightarrow> call list" where
  "calls [] = []"
| "calls (Remote c # es) = c # calls es"
| "calls (e # es) = calls es"

text \<open>
  \<open>guarded b es\<close>: scanning the events with the busy flag starting at \<open>b\<close>, every backend
  call is issued while the flag is set.
\<close>

fun guarded :: "bool \<Rightarrow> event list \<Rightarrow> bool" where
  "guarded b [] = True"
| "guarded b (SetBusy b' # es) = guarded b' es"
| "guarded b (Remote c # es) = (b \<and> guarded b es)"
| "guarded b (e # es) = guarded b es"

text \<open>The busy flag after the events, starting at \<open>b\<close>.\<close>

fun busy_after :: "bool \<Rightarrow> event list \<Rightarrow> bool" where
  "busy_after b [] = b"
| "busy_after b (SetBusy b' # es) = busy_after b' es"
| "busy_after b (e # es) = busy_after b es"

text \<open>
  What the blob gateway answers to the resolutions of one fetch: for each item in
  order, \<open>None\<close> when no \<^verbatim>\<open>getUrl\<close> call is made for it, the gateway's answer otherwise.
\<close>

fun replies :: "'w backend \<Rightarrow> NoteRecord list \<Rightarrow> 'w \<Rightarrow> (error + string) option list" where
  "replies B [] w = []"
| "replies B (n # ns) w =
     (if truthy (imagePath n) then
        (case getUrl B (the (imagePath n)) w of (r, w1) \<Rightarrow> Some r # replies B ns w1)
      else None # replies B ns w)"

definition rejected :: "(error + string) option \<Rightarrow> bool" where
  "rejected r = (case r of Some (Inl e) \<Rightarrow> True | _ \<Rightarrow> False)"

text \<open>The entry built from an item and the gateway's answer for it, when that is not a
  rejection.\<close>

definition attach :: "NoteRecord \<Rightarrow> (error + string) option \<Rightarrow> Note" where
  "attach n r = (case r of Some (Inr url) \<Rightarrow> with_url n url | _ \<Rightarrow> plain n)"

text \<open>A fetch fails when the list call throws or some resolution is rejected.\<close>

definition fetch_fails :: "'w backend \<Rightarrow> 'w \<Rightarrow> bool" where
  "fetch_fails B w =
     (case Note_list B w of
        (Inl e, w1) \<Rightarrow> True
      | (Inr resp, w1) \<Rightarrow> list_ex rejected (replies B (items_of resp) w1))"

text \<open>The records a fetch lists (none when the list call throws).\<close>

definition listed :: "'w backend \<Rightarrow> 'w \<Rightarrow> NoteRecord list" where
  "listed B w = (case Note_list B w of (Inl e, w1) \<Rightarrow> [] | (Inr resp, w1) \<Rightarrow> items_of resp)"

definition listed_replies :: "'w backend \<Rightarrow> 'w \<Rightarrow> (error + string) option list" where
  "listed_replies B w = replies B (listed B w) (snd (Note_list B w))"

text \<open>How one mapped promise settles, given the gateway's answer for its item.\<close>

definition settle :: "NoteRecord \<Rightarrow> (error + string) option \<Rightarrow> error + Note" where
  "settle n r = (case r of Some (Inl e) \<Rightarrow> Inl e | _ \<Rightarrow> Inr (attach n r))"

text \<open>The paths a fetch resolves: the truthy \<^verbatim>\<open>imagePath\<close>s of the items, in order.\<close>

definition paths :: "NoteRecord list \<Rightarrow> string list" where
  "paths items = map (\<lambda>n. the (imagePath n)) (filter (\<lambda>n. truthy (imagePath n)) items)"

text \<open>The argument of the create call: \<^verbatim>\<open>{ title: formData.title, content: formData.content }\<close>.\<close>

definition draft :: "ui \<Rightarrow> payload" where
  "draft s = [(''title'', title' (formData s)), (''content'', content' (formData s))]"

text \<open>
  The invariant of the list on display: an entry that carries an \<^verbatim>\<open>imageUrl\<close> has a
  truthy \<^verbatim>\<open>imagePath\<close>.
\<close>

definition url_has_path :: "Note option \<Rightarrow> bool" where
  "url_has_path e = (case e of None \<Rightarrow> True | Some n \<Rightarrow> imageUrl n \<noteq> None \<longrightarrow> truthy (imagePath (stored n)))"

text \<open>The property names of the object a data-client call sends to the store.\<close>

fun sent_fields :: "call \<Rightarrow> string list" where
  "sent_fields (CreateCall p) = map fst p"
| "sent_fields (UpdateCall p) = map fst p"
| "sent_fields (DeleteCall p) = map fst p"
| "sent_fields c = []"

text \<open>A call sends no \<^verbatim>\<open>imageUrl\<close> to the store, and an update sends exactly \<^verbatim>\<open>id\<close> and
  \<^verbatim>\<open>imagePath\<close>.\<close>

definition carries_no_url :: "call \<Rightarrow> bool" where
  "carries_no_url c =
     (''imageUrl'' \<notin> set (sent_fields c)
      \<and> (case c of UpdateCall q \<Rightarrow> map fst q = [''id'', ''imagePath''] | _ \<Rightarrow> True))"

text \<open>
  \<open>bracketed es\<close>: the events begin with the flag being set and end with the flag being
  cleared, and the flag is not touched in between.
\<close>

fun is_SetBusy :: "event \<Rightarrow> bool" where
  "is_SetBusy (SetBusy b) = True"
| "is_SetBusy e = False"

definition bracketed :: "event list \<Rightarrow> bool" where
  "bracketed es =
     (2 \<le> length es \<and> hd es = SetBusy True \<and> last es = SetBusy False
      \<and> list_all (\<lambda>e. \<not> is_SetBusy e) (butlast (tl es)))"

text \<open>
  \<open>resolved_in_fetch B w e\<close>: in the fetch run on backend \<open>B\<close> in state \<open>w\<close>, the store listed the
  record of \<open>e\<close> and the gateway fulfilled the resolution of its path.
\<close>

definition fulfilled :: "(error + string) option \<Rightarrow> bool" where
  "fulfilled r = (case r of Some (Inr u) \<Rightarrow> True | _ \<Rightarrow> False)"

definition resolved_in_fetch :: "'w backend \<Rightarrow> 'w \<Rightarrow> Note \<Rightarrow> bool" where
  "resolved_in_fetch B w e =
     list_ex (\<lambda>(n, r). n = stored e \<and> fulfilled r) (zip (listed B w) (listed_replies B w))"

subsection \<open>Example backends\<close>

text \<open>
  Concrete backends on which the theorems below are instantiated.  Their state counts
  the calls handled.  \<open>demo_backend\<close> is a well-behaved platform: the store echoes what
  it is given and assigns the identifier \<open>123\<close>, the blob store returns the path it was
  given, and every path resolves.  \<open>failing_backend\<close> rejects every call.
\<close>

definition field :: "string \<Rightarrow> payload \<Rightarrow> string" where
  "field k p = (case map_of p k of None \<Rightarrow> [] | Some v \<Rightarrow> v)"

definition demo_records :: "NoteRecord list" where
  "demo_records =
     [\<lparr>id' = ''1'', title = ''Shopping'', content = ''Milk'', imagePath = None\<rparr>,
      \<lparr>id' = ''2'', title = ''Trip'', content = ''Beach'', imagePath = Some ''images/2-beach.png''\<rparr>]"

definition demo_backend :: "nat backend" where
  "demo_backend =
     \<lparr>Note_list = (\<lambda>w. (Inr (Resp (Some demo_records)), Suc w)),
      Note_create = (\<lambda>p w. (Inr (Resp (Some \<lparr>id' = ''123'', title = field ''title'' p,
                                               content = field ''content'' p, imagePath = None\<rparr>)), Suc w)),
      Note_update = (\<lambda>p w. (Inr (Resp (Some \<lparr>id' = field ''id'' p, title = ''A'', content = ''B'',
                                               imagePath = map_of p ''imagePath''\<rparr>)), Suc w)),
      Note_delete = (\<lambda>p w. (Inr (), Suc w)),
      uploadData = (\<lambda>path f ct w. (Inr path, Suc w)),
      getUrl = (\<lambda>path w. (Inr (''https://blobs.example/'' @ path), Suc w)),
      remove' = (\<lambda>path w. (Inr (), Suc w))\<rparr>"

definition failing_backend :: "nat backend" where
  "failing_backend =
     \<lparr>Note_list = (\<lambda>w. (Inl (RemoteError ''Network error''), Suc w)),
      Note_create = (\<lambda>p w. (Inl (RemoteError ''Network error''), Suc w)),
      Note_update = (\<lambda>p w. (Inl (RemoteError ''Network error''), Suc w)),
      Note_delete = (\<lambda>p w. (Inl (RemoteError ''Network error''), Suc w)),
      uploadData = (\<lambda>path f ct w. (Inl (RemoteError ''Network error''), Suc w)),
      getUrl = (\<lambda>path w. (Inl (RemoteError ''Network error''), Suc w)),
      remove' = (\<lambda>path w. (Inl (RemoteError ''Network error''), Suc w))\<rparr>"

text \<open>A component state with the two example records on display, the second with its
  signed URL.\<close>

definition demo_ui :: ui where
  "demo_ui =
     \<lparr>notes = [Some (plain (demo_records ! 0)),
               Some (with_url (demo_records ! 1) ''https://blobs.example/old'')],
      formData = \<lparr>title' = ''A'', content' = ''B''\<rparr>,
      file = None, busy = False\<rparr>"

definition photo :: File where
  "photo = \<lparr>name = ''photo.png'', type' = ''image/png''\<rparr>"

text \<open>The example platform with a blob store whose signed URLs cannot be had.\<close>

definition expired_backend :: "nat backend" where
  "expired_backend = demo_backend\<lparr>getUrl := (\<lambda>path w. (Inl (RemoteError ''Expired''), Suc w))\<rparr>"

text \<open>The example platform with a store that answers a create with no data.\<close>

definition silent_backend :: "nat backend" where
  "silent_backend = demo_backend\<lparr>Note_create := (\<lambda>p w. (Inr (Resp None), Suc w))\<rparr>"

text \<open>The record of the example note once a file is attached, and the example platform
  when its store lists that record too.\<close>

definition attached_record :: NoteRecord where
  "attached_record =
     \<lparr>id' = ''123'', title = ''A'', content = ''B'', imagePath = Some ''images/123-photo.png''\<rparr>"

definition later_backend :: "nat backend" where
  "later_backend =
     demo_backend\<lparr>Note_list := (\<lambda>w. (Inr (Resp (Some (demo_records @ [attached_record]))), Suc w))\<rparr>"

text \<open>
  The later platform with a blob store that resolves the path of the second example
  record and rejects the path of the attached record; and a component state that shows the
  second example record without a URL, as a create leaves it.
\<close>

definition half_expired_backend :: "nat backend" where
  "half_expired_backend =
     later_backend\<lparr>getUrl := (\<lambda>path w. if path = ''images/123-photo.png''
                                        then (Inl (RemoteError ''Expired''), Suc w)
                                        else (Inr (''https://blobs.example/'' @ path), Suc w))\<rparr>"

definition stale_ui :: ui where
  "stale_ui = demo_ui\<lparr>notes := [Some (plain (demo_records ! 1))]\<rparr>"

section \<open>Basic facts\<close>

lemma calls_append [simp]: "calls (es @ fs) = calls es @ calls fs"
  by (induction es rule: calls.induct) simp_all

lemma guarded_append: "guarded b (es @ fs) = (guarded b es \<and> guarded (busy_after b es) fs)"
  by (induction b es rule: guarded.induct) simp_all

lemma busy_after_append [simp]: "busy_after b (es @ fs) = busy_after (busy_after b es) fs"
  by (induction b es rule: busy_after.induct) simp_all

lemma start_sel [simp]:
  "ui (start s w) = s" "world (start s w) = w" "trace (start s w) = []" "uncaught (start s w) = None"
  by (simp_all add: start_def)

lemma emit_sel [simp]:
  "ui (emit e st) = ui st" "world (emit e st) = world st"
  "trace (emit e st) = trace st @ [e]" "uncaught (emit e st) = uncaught st"
  by (simp_all add: emit_def)

lemma setBusy_sel [simp]:
  "ui (setBusy b st) = (ui st)\<lparr>busy := b\<rparr>" "world (setBusy b st) = world st"
  "trace (setBusy b st) = trace st @ [SetBusy b]" "uncaught (setBusy b st) = uncaught st"
  by (simp_all add: setBusy_def)

lemma alert_sel [simp]:
  "ui (alert m st) = ui st" "world (alert m st) = world st"
  "trace (alert m st) = trace st @ [Alert m]" "uncaught (alert m st) = uncaught st"
  by (simp_all add: alert_def)

lemma console_error_sel [simp]:
  "ui (console_error m st) = ui st" "world (console_error m st) = world st"
  "trace (console_error m st) = trace st @ [ConsoleError m]"
  "uncaught (console_error m st) = uncaught st"
  by (simp_all add: console_error_def)

lemma setNotes_sel [simp]:
  "ui (setNotes ns st) = (ui st)\<lparr>notes := ns\<rparr>" "world (setNotes ns st) = world st"
  "trace (setNotes ns st) = trace st" "uncaught (setNotes ns st) = uncaught st"
  by (simp_all add: setNotes_def)

lemma setFormData_sel [simp]:
  "ui (setFormData fd st) = (ui st)\<lparr>formData := fd\<rparr>" "world (setFormData fd st) = world st"
  "trace (setFormData fd st) = trace st" "uncaught (setFormData fd st) = uncaught st"
  by (simp_all add: setFormData_def)

lemma setFile_sel [simp]:
  "ui (setFile f st) = (ui st)\<lparr>file := f\<rparr>" "world (setFile f st) = world st"
  "trace (setFile f st) = trace st" "uncaught (setFile f st) = uncaught st"
  by (simp_all add: setFile_def)

lemma refresh_ui_sel [simp]:
  "ui (refresh_ui d st) =
     (ui st)\<lparr>notes := notes (ui st) @ [map_option plain d],
             formData := \<lparr>title' = [], content' = []\<rparr>, file := None\<rparr>"
  "world (refresh_ui d st) = world st"
  "trace (refresh_ui d st) = trace st" "uncaught (refresh_ui d st) = uncaught st"
  by (simp_all add: refresh_ui_def setNotes_with_def)

lemma await_eq:
  "await c h st = (fst (h (world st)), (emit (Remote c) st)\<lparr>world := snd (h (world st))\<rparr>)"
  by (simp add: await_def split: prod.splits)

lemma await_sel [simp]:
  "fst (await c h st) = fst (h (world st))"
  "ui (snd (await c h st)) = ui st"
  "world (snd (await c h st)) = snd (h (world st))"
  "trace (snd (await c h st)) = trace st @ [Remote c]"
  "uncaught (snd (await c h st)) = uncaught st"
  by (simp_all add: await_eq)

subsection \<open>The fan-out of fetchNotes\<close>

lemma length_replies [simp]: "length (replies B items w) = length items"
  by (induction items arbitrary: w) (simp_all split: prod.splits)

lemma hydrate_fst:
  "fst (hydrate B n st) =
     settle n (if truthy (imagePath n) then Some (fst (getUrl B (the (imagePath n)) (world st))) else None)"
  by (simp add: hydrate_def settle_def attach_def await_eq split: sum.splits)

lemma hydrate_snd:
  "snd (hydrate B n st) =
     (if truthy (imagePath n)
      then (emit (Remote (GetUrlCall (the (imagePath n)))) st)\<lparr>world := snd (getUrl B (the (imagePath n)) (world st))\<rparr>
      else st)"
  by (simp add: hydrate_def await_eq split: sum.splits)

lemma hydrate_all_Cons:
  "hydrate_all B (n # ns) st =
     (fst (hydrate B n st) # fst (hydrate_all B ns (snd (hydrate B n st))),
      snd (hydrate_all B ns (snd (hydrate B n st))))"
  by (simp split: prod.splits)

lemma hydrate_all_fst:
  "fst (hydrate_all B items st) = map2 settle items (replies B items (world st))"
proof (induction items arbitrary: st)
  case Nil
  show ?case by simp
next
  case (Cons n ns)
  show ?case
    unfolding hydrate_all_Cons
    by (simp add: Cons.IH hydrate_fst hydrate_snd split: prod.splits)
qed

lemma hydrate_all_ui [simp]: "ui (snd (hydrate_all B items st)) = ui st"
proof (induction items arbitrary: st)
  case Nil
  show ?case by simp
next
  case (Cons n ns)
  show ?case
    unfolding hydrate_all_Cons by (simp add: Cons.IH hydrate_snd)
qed

lemma hydrate_all_uncaught [simp]: "uncaught (snd (hydrate_all B items st)) = uncaught st"
proof (induction items arbitrary: st)
  case Nil
  show ?case by simp
next
  case (Cons n ns)
  show ?case
    unfolding hydrate_all_Cons by (simp add: Cons.IH hydrate_snd)
qed

lemma hydrate_all_trace:
  "trace (snd (hydrate_all B items st)) = trace st @ map (\<lambda>p. Remote (GetUrlCall p)) (paths items)"
proof (induction items arbitrary: st)
  case Nil
  show ?case by (simp add: paths_def)
next
  case (Cons n ns)
  show ?case
    unfolding hydrate_all_Cons by (simp add: Cons.IH hydrate_snd paths_def)
qed

lemma settle_simps [simp]:
  "settle n None = Inr (plain n)"
  "settle n (Some (Inl e)) = Inl e"
  "settle n (Some (Inr u)) = Inr (with_url n u)"
  by (simp_all add: settle_def attach_def)

lemma attach_simps [simp]:
  "attach n None = plain n"
  "attach n (Some (Inl e)) = plain n"
  "attach n (Some (Inr u)) = with_url n u"
  by (simp_all add: attach_def)

lemma rejected_simps [simp]:
  "rejected None = False"
  "rejected (Some (Inl e)) = True"
  "rejected (Some (Inr u)) = False"
  by (simp_all add: rejected_def)

lemma reply_cases:
  obtains "r = None" | e where "r = Some (Inl e)" | u where "r = Some (Inr u)"
proof (cases r)
  case None
  then show ?thesis using that by simp
next
  case (Some x)
  then show ?thesis using that by (cases x) simp_all
qed

lemma promise_all_ok:
  "length rs = length items \<Longrightarrow> \<not> list_ex rejected rs \<Longrightarrow>
   promise_all (map2 settle items rs) = Inr (map2 attach items rs)"
proof (induction items arbitrary: rs)
  case Nil
  then show ?case by simp
next
  case (Cons n ns)
  then obtain r rs' where rs: "rs = r # rs'" by (cases rs) auto
  have "promise_all (map2 settle ns rs') = Inr (map2 attach ns rs')"
    using Cons rs by simp
  then show ?case
    using Cons.prems rs by (cases r rule: reply_cases) simp_all
qed

lemma promise_all_rejected:
  "length rs = length items \<Longrightarrow> list_ex rejected rs \<Longrightarrow>
   isl (promise_all (map2 settle items rs))"
proof (induction items arbitrary: rs)
  case Nil
  then show ?case by simp
next
  case (Cons n ns)
  then obtain r rs' where rs: "rs = r # rs'" by (cases rs) auto
  show ?case
  proof (cases "rejected r")
    case True
    then show ?thesis using rs by (cases r rule: reply_cases) simp_all
  next
    case False
    then have "isl (promise_all (map2 settle ns rs'))"
      using Cons rs by simp
    then show ?thesis
      using rs False by (cases r rule: reply_cases) (auto split: sum.splits)
  qed
qed


lemma fetchNotes_try_proj:
  "fetchNotes_try B st =
     (case fst (Note_list B (world st)) of
        Inl e \<Rightarrow> (Inl e, snd (await ListCall (Note_list B) (setBusy True st)))
      | Inr resp \<Rightarrow>
          (case promise_all (fst (hydrate_all B (items_of resp) (snd (await ListCall (Note_list B) (setBusy True st))))) of
             Inl e \<Rightarrow> (Inl e, snd (hydrate_all B (items_of resp) (snd (await ListCall (Note_list B) (setBusy True st)))))
           | Inr withUrls \<Rightarrow>
               (Inr (), setNotes (map Some withUrls)
                  (snd (hydrate_all B (items_of resp) (snd (await ListCall (Note_list B) (setBusy True st))))))))"
  by (simp add: fetchNotes_try_def await_eq split: prod.splits sum.splits)

lemma fetchNotes_try_eq:
  "fetchNotes_try B (start s w) =
     (case Note_list B w of
        (Inl e, w1) \<Rightarrow> (Inl e, (emit (Remote ListCall) (setBusy True (start s w)))\<lparr>world := w1\<rparr>)
      | (Inr resp, w1) \<Rightarrow>
          (let st1 = (emit (Remote ListCall) (setBusy True (start s w)))\<lparr>world := w1\<rparr>;
               st2 = snd (hydrate_all B (items_of resp) st1)
           in case promise_all (map2 settle (items_of resp) (replies B (items_of resp) w1)) of
                Inl e \<Rightarrow> (Inl e, st2)
              | Inr withUrls \<Rightarrow> (Inr (), setNotes (map Some withUrls) st2)))"
  unfolding fetchNotes_try_proj hydrate_all_fst
  by (simp add: await_eq Let_def split: prod.splits sum.splits)

lemma fetchNotes_ui:
  "ui (fetchNotes B s w) =
     (if fetch_fails B w then s\<lparr>busy := False\<rparr>
      else s\<lparr>notes := map Some (map2 attach (listed B w) (listed_replies B w)), busy := False\<rparr>)"
proof (cases "Note_list B w")
  case (Pair r w1)
  show ?thesis
  proof (cases r)
    case (Inl e)
    with Pair show ?thesis
      by (simp add: fetchNotes_def fetchNotes_try_eq fetch_fails_def)
  next
    case (Inr resp)
    show ?thesis
    proof (cases "list_ex rejected (replies B (items_of resp) w1)")
      case True
      then have "isl (promise_all (map2 settle (items_of resp) (replies B (items_of resp) w1)))"
        by (simp add: promise_all_rejected)
      then obtain e where "promise_all (map2 settle (items_of resp) (replies B (items_of resp) w1)) = Inl e"
        by (auto simp: isl_def)
      with Pair Inr True show ?thesis
        by (simp add: fetchNotes_def fetchNotes_try_eq fetch_fails_def Let_def)
    next
      case False
      then have "promise_all (map2 settle (items_of resp) (replies B (items_of resp) w1))
                   = Inr (map2 attach (items_of resp) (replies B (items_of resp) w1))"
        by (simp add: promise_all_ok)
      with Pair Inr False show ?thesis
        by (simp add: fetchNotes_def fetchNotes_try_eq fetch_fails_def Let_def listed_def listed_replies_def)
    qed
  qed
qed

lemma fetchNotes_trace:
  "trace (fetchNotes B s w) =
     SetBusy True # Remote ListCall # map (\<lambda>p. Remote (GetUrlCall p)) (paths (listed B w))
       @ (if fetch_fails B w
          then [ConsoleError ''Error fetching notes:'', Alert ''Error fetching notes. Check console for details.'']
          else [])
       @ [SetBusy False]"
proof (cases "Note_list B w")
  case (Pair r w1)
  show ?thesis
  proof (cases r)
    case (Inl e)
    with Pair show ?thesis
      by (simp add: fetchNotes_def fetchNotes_try_eq fetch_fails_def listed_def paths_def)
  next
    case (Inr resp)
    show ?thesis
    proof (cases "list_ex rejected (replies B (items_of resp) w1)")
      case True
      then have "isl (promise_all (map2 settle (items_of resp) (replies B (items_of resp) w1)))"
        by (simp add: promise_all_rejected)
      then obtain e where "promise_all (map2 settle (items_of resp) (replies B (items_of resp) w1)) = Inl e"
        by (auto simp: isl_def)
      with Pair Inr True show ?thesis
        by (simp add: fetchNotes_def fetchNotes_try_eq fetch_fails_def Let_def listed_def hydrate_all_trace)
    next
      case False
      then have "promise_all (map2 settle (items_of resp) (replies B (items_of resp) w1))
                   = Inr (map2 attach (items_of resp) (replies B (items_of resp) w1))"
        by (simp add: promise_all_ok)
      with Pair Inr False show ?thesis
        by (simp add: fetchNotes_def fetchNotes_try_eq fetch_fails_def Let_def listed_def hydrate_all_trace)
    qed
  qed
qed

subsection \<open>The gateway's answers, item by item\<close>

lemma plain_sel [simp]: "stored (plain n) = n" "imageUrl (plain n) = None"
  by (simp_all add: plain_def)

lemma with_url_sel [simp]: "stored (with_url n u) = n" "imageUrl (with_url n u) = Some u"
  by (simp_all add: with_url_def)

lemma calls_map_Remote: "calls (map (\<lambda>p. Remote (f p)) ps) = map f ps"
  by (induction ps) simp_all

lemma guarded_map_Remote: "guarded True (map (\<lambda>p. Remote (f p)) ps)"
  by (induction ps) simp_all

lemma busy_after_map_Remote: "busy_after b (map (\<lambda>p. Remote (f p)) ps) = b"
  by (induction ps) simp_all

lemma replies_Cons:
  "replies B (n # ns) w =
     (if truthy (imagePath n)
      then Some (fst (getUrl B (the (imagePath n)) w)) # replies B ns (snd (getUrl B (the (imagePath n)) w))
      else None # replies B ns w)"
  by (simp split: prod.splits)

lemma replies_nth_falsy:
  "i < length items \<Longrightarrow> \<not> truthy (imagePath (items ! i)) \<Longrightarrow> replies B items w ! i = None"
proof (induction items arbitrary: i w)
  case Nil
  then show ?case by simp
next
  case (Cons n ns)
  show ?case
  proof (cases i)
    case 0
    with Cons.prems show ?thesis by (simp add: replies_Cons del: replies.simps(2))
  next
    case (Suc j)
    with Cons.prems have "replies B ns w' ! j = None" for w'
      by (intro Cons.IH) simp_all
    with Suc show ?thesis by (simp add: replies_Cons del: replies.simps(2))
  qed
qed

lemma replies_nth_truthy:
  "i < length items \<Longrightarrow> truthy (imagePath (items ! i)) \<Longrightarrow>
   \<exists>w'. replies B items w ! i = Some (fst (getUrl B (the (imagePath (items ! i))) w'))"
proof (induction items arbitrary: i w)
  case Nil
  then show ?case by simp
next
  case (Cons n ns)
  show ?case
  proof (cases i)
    case 0
    with Cons.prems show ?thesis by (auto simp add: replies_Cons simp del: replies.simps(2))
  next
    case (Suc j)
    with Cons.prems have "\<exists>w''. replies B ns w' ! j = Some (fst (getUrl B (the (imagePath (ns ! j))) w''))" for w'
      by (intro Cons.IH) simp_all
    with Suc show ?thesis by (simp add: replies_Cons del: replies.simps(2))
  qed
qed

lemma not_rejected_nth:
  "\<not> list_ex rejected rs \<Longrightarrow> i < length rs \<Longrightarrow> rs ! i = Some r \<Longrightarrow> \<exists>u. r = Inr u"
proof (cases r)
  case (Inl e)
  assume "\<not> list_ex rejected rs" "i < length rs" "rs ! i = Some r"
  then have "Some (Inl e) \<in> set rs" "\<forall>x \<in> set rs. \<not> rejected x"
    using Inl nth_mem [of i rs] by (simp_all add: list_ex_iff)
  then have "\<not> rejected (Some (Inl e))" by blast
  then show ?thesis by simp
next
  case (Inr u)
  then show ?thesis by blast
qed

lemma hydrated_nth:
  assumes ok: "\<not> list_ex rejected (replies B items w)" and i: "i < length items"
  shows "(truthy (imagePath (items ! i)) \<longrightarrow>
            (\<exists>u w'. fst (getUrl B (the (imagePath (items ! i))) w') = Inr u
                   \<and> map2 attach items (replies B items w) ! i = with_url (items ! i) u))
       \<and> (\<not> truthy (imagePath (items ! i)) \<longrightarrow>
            map2 attach items (replies B items w) ! i = plain (items ! i))"
proof (intro conjI impI)
  assume t: "truthy (imagePath (items ! i))"
  from replies_nth_truthy [OF i t, of B w] obtain w' where
    r: "replies B items w ! i = Some (fst (getUrl B (the (imagePath (items ! i))) w'))" ..
  from not_rejected_nth [OF ok _ r] i obtain u where u: "fst (getUrl B (the (imagePath (items ! i))) w') = Inr u"
    by auto
  have "map2 attach items (replies B items w) ! i = with_url (items ! i) u"
    using i r u by simp
  with u show "\<exists>u w'. fst (getUrl B (the (imagePath (items ! i))) w') = Inr u
                   \<and> map2 attach items (replies B items w) ! i = with_url (items ! i) u"
    by blast
next
  assume "\<not> truthy (imagePath (items ! i))"
  from replies_nth_falsy [OF i this, of B w]
  show "map2 attach items (replies B items w) ! i = plain (items ! i)"
    using i by simp
qed

lemma hydrated_url_iff:
  assumes ok: "\<not> list_ex rejected (replies B items w)"
      and e: "e \<in> set (map2 attach items (replies B items w))"
  shows "(imageUrl e \<noteq> None) = truthy (imagePath (stored e))"
proof -
  from e obtain i where i: "i < length items" and ei: "e = map2 attach items (replies B items w) ! i"
    by (auto simp: in_set_conv_nth)
  show ?thesis
  proof (cases "truthy (imagePath (items ! i))")
    case True
    with hydrated_nth [OF ok i] obtain u where "e = with_url (items ! i) u"
      using ei by auto
    with True show ?thesis by simp
  next
    case False
    with hydrated_nth [OF ok i] have "e = plain (items ! i)"
      using ei by auto
    with False show ?thesis by simp
  qed
qed

lemma fetchNotes_url_iff:
  assumes "\<not> fetch_fails B w" and "Some e \<in> set (notes (ui (fetchNotes B s w)))"
  shows "(imageUrl e \<noteq> None) = truthy (imagePath (stored e))"
proof -
  have "\<not> list_ex rejected (replies B (listed B w) (snd (Note_list B w)))"
    using assms(1) by (auto simp: fetch_fails_def listed_def split: prod.splits sum.splits)
  moreover have "e \<in> set (map2 attach (listed B w) (replies B (listed B w) (snd (Note_list B w))))"
    using assms by (auto simp: fetchNotes_ui listed_replies_def)
  ultimately show ?thesis by (rule hydrated_url_iff)
qed

lemma fetchNotes_resolves_listed:
  assumes ok: "\<not> fetch_fails B w" and r: "r \<in> set (listed B w)" and t: "truthy (imagePath r)"
  shows "\<exists>u. Some (with_url r u) \<in> set (notes (ui (fetchNotes B s w)))"
proof -
  define hs where "hs = map2 attach (listed B w) (replies B (listed B w) (snd (Note_list B w)))"
  from r obtain i where i: "i < length (listed B w)" and ri: "listed B w ! i = r"
    by (auto simp: in_set_conv_nth)
  have rs: "\<not> list_ex rejected (replies B (listed B w) (snd (Note_list B w)))"
    using ok by (auto simp: fetch_fails_def listed_def split: prod.splits sum.splits)
  from hydrated_nth [OF rs i] t ri obtain u where u: "hs ! i = with_url r u"
    by (auto simp: hs_def)
  have "i < length hs"
    using i by (simp add: hs_def)
  then have "hs ! i \<in> set hs"
    by (rule nth_mem)
  with u have "Some (with_url r u) \<in> set (map Some hs)"
    by simp
  moreover have "notes (ui (fetchNotes B s w)) = map Some hs"
    using ok by (simp add: fetchNotes_ui listed_replies_def hs_def)
  ultimately show ?thesis by auto
qed

lemma fetchNotes_calls: "calls (trace (fetchNotes B s w)) = ListCall # map GetUrlCall (paths (listed B w))"
  by (simp add: fetchNotes_trace calls_map_Remote)

subsection \<open>createNote, path by path\<close>

lemma setNotes_with_sel [simp]:
  "world (setNotes_with f st) = world st"
  "trace (setNotes_with f st) = trace st"
  "busy (ui (setNotes_with f st)) = busy (ui st)"
  "formData (ui (setNotes_with f st)) = formData (ui st)"
  "file (ui (setNotes_with f st)) = file (ui st)"
  by (simp_all add: setNotes_with_def split: sum.splits)

lemma createNote_blank:
  assumes "title' (formData s) = [] \<or> content' (formData s) = []"
  shows "createNote B s w = alert ''Please provide a title and content'' (start s w)"
  using assms by (auto simp: createNote_def)

lemma createNote_create_fails:
  assumes "title' (formData s) \<noteq> []" "content' (formData s) \<noteq> []"
      and "fst (Note_create B (draft s) w) = Inl e \<or> fst (Note_create B (draft s) w) = Inr Nullish"
  shows "trace (createNote B s w)
           = [SetBusy True, Remote (CreateCall (draft s)), ConsoleError ''Error creating note:'',
              Alert ''Error creating note. Check console for details.'', SetBusy False]"
    and "ui (createNote B s w) = s\<lparr>busy := False\<rparr>"
  using assms
  by (auto simp: createNote_def createNote_try_def draft_def await_eq Let_def split: prod.splits)

lemma createNote_no_upload:
  assumes "title' (formData s) \<noteq> []" "content' (formData s) \<noteq> []"
      and "fst (Note_create B (draft s) w) = Inr (Resp d)"
      and "file s = None \<or> d = None"
  shows "trace (createNote B s w) = [SetBusy True, Remote (CreateCall (draft s)), SetBusy False]"
    and "ui (createNote B s w)
           = s\<lparr>notes := notes s @ [map_option plain d],
               formData := \<lparr>title' = [], content' = []\<rparr>, file := None, busy := False\<rparr>"
  using assms
  by (auto simp: createNote_def createNote_try_def draft_def await_eq Let_def split: prod.splits option.splits)

lemma createNote_upload_fails:
  assumes "title' (formData s) \<noteq> []" "content' (formData s) \<noteq> []"
      and "Note_create B (draft s) w = (Inr (Resp (Some nn)), w1)"
      and "file s = Some fl"
      and "fst (uploadData B (''images/'' @ id' nn @ ''-'' @ name fl) fl (type' fl) w1) = Inl e"
  shows "trace (createNote B s w)
           = [SetBusy True, Remote (CreateCall (draft s)),
              Remote (UploadCall (''images/'' @ id' nn @ ''-'' @ name fl) fl (type' fl)),
              ConsoleError ''Error creating note:'',
              Alert ''Error creating note. Check console for details.'', SetBusy False]"
    and "ui (createNote B s w) = s\<lparr>busy := False\<rparr>"
  using assms
  by (auto simp: createNote_def createNote_try_def draft_def await_eq Let_def split: prod.splits)

lemma createNote_update_fails:
  assumes "title' (formData s) \<noteq> []" "content' (formData s) \<noteq> []"
      and "Note_create B (draft s) w = (Inr (Resp (Some nn)), w1)"
      and "file s = Some fl"
      and "uploadData B (''images/'' @ id' nn @ ''-'' @ name fl) fl (type' fl) w1 = (Inr result_path, w2)"
      and "fst (Note_update B [(''id'', id' nn), (''imagePath'', result_path)] w2) = Inl e
         \<or> fst (Note_update B [(''id'', id' nn), (''imagePath'', result_path)] w2) = Inr Nullish"
  shows "trace (createNote B s w)
           = [SetBusy True, Remote (CreateCall (draft s)),
              Remote (UploadCall (''images/'' @ id' nn @ ''-'' @ name fl) fl (type' fl)),
              Remote (UpdateCall [(''id'', id' nn), (''imagePath'', result_path)]),
              ConsoleError ''Error creating note:'',
              Alert ''Error creating note. Check console for details.'', SetBusy False]"
    and "ui (createNote B s w) = s\<lparr>busy := False\<rparr>"
  using assms
  by (auto simp: createNote_def createNote_try_def draft_def await_eq Let_def split: prod.splits)

lemma createNote_attached:
  assumes "title' (formData s) \<noteq> []" "content' (formData s) \<noteq> []"
      and "Note_create B (draft s) w = (Inr (Resp (Some nn)), w1)"
      and "file s = Some fl"
      and "uploadData B (''images/'' @ id' nn @ ''-'' @ name fl) fl (type' fl) w1 = (Inr result_path, w2)"
      and "fst (Note_update B [(''id'', id' nn), (''imagePath'', result_path)] w2) = Inr (Resp d)"
  shows "trace (createNote B s w)
           = [SetBusy True, Remote (CreateCall (draft s)),
              Remote (UploadCall (''images/'' @ id' nn @ ''-'' @ name fl) fl (type' fl)),
              Remote (UpdateCall [(''id'', id' nn), (''imagePath'', result_path)]),
              SetBusy False]"
    and "ui (createNote B s w)
           = s\<lparr>notes := notes s @ [map_option plain d],
               formData := \<lparr>title' = [], content' = []\<rparr>, file := None, busy := False\<rparr>"
  using assms
  by (auto simp: createNote_def createNote_try_def draft_def await_eq Let_def split: prod.splits)


lemma resp_cases:
  obtains e where "r = Inl e" | "r = Inr Nullish" | d where "r = Inr (Resp d)"
proof (cases r)
  case (Inl e)
  then show ?thesis using that by simp
next
  case (Inr x)
  then show ?thesis using that by (cases x) simp_all
qed

text \<open>The six ways a run of \<open>createNote\<close> on a valid draft can go.\<close>

lemma createNote_cases [case_names create_fails no_upload upload_fails update_fails attached]:
  assumes valid: "title' (formData s) \<noteq> []" "content' (formData s) \<noteq> []"
  obtains
    "trace (createNote B s w)
       = [SetBusy True, Remote (CreateCall (draft s)), ConsoleError ''Error creating note:'',
          Alert ''Error creating note. Check console for details.'', SetBusy False]"
    "ui (createNote B s w) = s\<lparr>busy := False\<rparr>"
  | d where
    "trace (createNote B s w) = [SetBusy True, Remote (CreateCall (draft s)), SetBusy False]"
    "ui (createNote B s w)
       = s\<lparr>notes := notes s @ [map_option plain d],
           formData := \<lparr>title' = [], content' = []\<rparr>, file := None, busy := False\<rparr>"
  | path and fl :: File where
    "trace (createNote B s w)
       = [SetBusy True, Remote (CreateCall (draft s)), Remote (UploadCall path fl (type' fl)),
          ConsoleError ''Error creating note:'',
          Alert ''Error creating note. Check console for details.'', SetBusy False]"
    "ui (createNote B s w) = s\<lparr>busy := False\<rparr>"
  | path and fl :: File and nn :: NoteRecord and result_path where
    "trace (createNote B s w)
       = [SetBusy True, Remote (CreateCall (draft s)), Remote (UploadCall path fl (type' fl)),
          Remote (UpdateCall [(''id'', id' nn), (''imagePath'', result_path)]),
          ConsoleError ''Error creating note:'',
          Alert ''Error creating note. Check console for details.'', SetBusy False]"
    "ui (createNote B s w) = s\<lparr>busy := False\<rparr>"
  | path and fl :: File and nn :: NoteRecord and result_path d where
    "trace (createNote B s w)
       = [SetBusy True, Remote (CreateCall (draft s)), Remote (UploadCall path fl (type' fl)),
          Remote (UpdateCall [(''id'', id' nn), (''imagePath'', result_path)]),
          SetBusy False]"
    "ui (createNote B s w)
       = s\<lparr>notes := notes s @ [map_option plain d],
           formData := \<lparr>title' = [], content' = []\<rparr>, file := None, busy := False\<rparr>"
proof -
  obtain r w1 where c: "Note_create B (draft s) w = (r, w1)"
    by (cases "Note_create B (draft s) w")
  show ?thesis
  proof (cases r rule: resp_cases)
    case (1 e)
    with c have "fst (Note_create B (draft s) w) = Inl e \<or> fst (Note_create B (draft s) w) = Inr Nullish"
      by simp
    from createNote_create_fails [OF valid this] show ?thesis by (rule that(1))
  next
    case 2
    with c have "fst (Note_create B (draft s) w) = Inl TypeError \<or> fst (Note_create B (draft s) w) = Inr Nullish"
      by simp
    from createNote_create_fails [OF valid this] show ?thesis by (rule that(1))
  next
    case (3 d)
    show ?thesis
    proof (cases "file s = None \<or> d = None")
      case True
      moreover from 3 c have "fst (Note_create B (draft s) w) = Inr (Resp d)"
        by simp
      ultimately have "file s = None \<or> d = None" "fst (Note_create B (draft s) w) = Inr (Resp d)"
        by simp_all
      from createNote_no_upload [OF valid this(2) this(1)] show ?thesis by (rule that(2))
    next
      case False
      then obtain fl nn where fl: "file s = Some fl" and nn: "d = Some nn" by auto
      let ?path = "''images/'' @ id' nn @ ''-'' @ name fl"
      from 3 nn c have c': "Note_create B (draft s) w = (Inr (Resp (Some nn)), w1)" by simp
      obtain r2 w2 where u: "uploadData B ?path fl (type' fl) w1 = (r2, w2)"
        by (cases "uploadData B ?path fl (type' fl) w1")
      show ?thesis
      proof (cases r2)
        case (Inl e)
        with u have "fst (uploadData B ?path fl (type' fl) w1) = Inl e" by simp
        from createNote_upload_fails [OF valid c' fl this] show ?thesis by (rule that(3))
      next
        case (Inr result_path)
        with u have u': "uploadData B ?path fl (type' fl) w1 = (Inr result_path, w2)" by simp
        let ?q = "[(''id'', id' nn), (''imagePath'', result_path)]"
        show ?thesis
        proof (cases "fst (Note_update B ?q w2)" rule: resp_cases)
          case (1 e)
          then have "fst (Note_update B ?q w2) = Inl e \<or> fst (Note_update B ?q w2) = Inr Nullish"
            by simp
          from createNote_update_fails [OF valid c' fl u' this] show ?thesis by (rule that(4))
        next
          case 2
          then have "fst (Note_update B ?q w2) = Inl TypeError \<or> fst (Note_update B ?q w2) = Inr Nullish"
            by simp
          from createNote_update_fails [OF valid c' fl u' this] show ?thesis by (rule that(4))
        next
          case (3 d')
          from createNote_attached [OF valid c' fl u' 3] show ?thesis by (rule that(5))
        qed
      qed
    qed
  qed
qed

lemma createNote_notes:
  "notes (ui (createNote B s w)) = notes s
   \<or> (\<exists>d. notes (ui (createNote B s w)) = notes s @ [map_option plain d])"
proof (cases "title' (formData s) = [] \<or> content' (formData s) = []")
  case True
  then show ?thesis by (simp add: createNote_blank)
next
  case False
  then have "title' (formData s) \<noteq> []" "content' (formData s) \<noteq> []" by simp_all
  then show ?thesis
    by (cases rule: createNote_cases [of s B w]) auto
qed

lemma createNote_no_getUrl: "GetUrlCall p \<notin> set (calls (trace (createNote B s w)))"
proof (cases "title' (formData s) = [] \<or> content' (formData s) = []")
  case True
  then show ?thesis by (simp add: createNote_blank)
next
  case False
  then have "title' (formData s) \<noteq> []" "content' (formData s) \<noteq> []" by simp_all
  then show ?thesis
    by (cases rule: createNote_cases [of s B w]) simp_all
qed

subsection \<open>deleteNote, call by call\<close>

lemma deleteNote_try_proj:
  "deleteNote_try B n st0 =
     (let q = [(''id'', id' (stored n))];
          p = the (imagePath (stored n));
          st1 = (if truthy (imagePath (stored n))
                 then snd (await (RemoveCall p) (remove' B p) (setBusy True st0))
                 else setBusy True st0);
          st2 = snd (await (DeleteCall q) (Note_delete B q) st1)
      in if truthy (imagePath (stored n)) \<and> isl (fst (remove' B p (world st0)))
         then (Inl (projl (fst (remove' B p (world st0)))), st1)
         else if isl (fst (Note_delete B q (world st1)))
         then (Inl (projl (fst (Note_delete B q (world st1)))), st2)
         else (Inr (), setNotes_with (filter_out (id' (stored n))) st2))"
  by (simp add: deleteNote_try_def await_eq Let_def split: prod.splits sum.splits)

lemma deleteNote_confirmed:
  "deleteNote B True n s w =
     (let q = [(''id'', id' (stored n))];
          p = the (imagePath (stored n));
          st1 = (if truthy (imagePath (stored n))
                 then snd (await (RemoveCall p) (remove' B p) (setBusy True (start s w)))
                 else setBusy True (start s w));
          st2 = snd (await (DeleteCall q) (Note_delete B q) st1);
          failed = (\<lambda>st. setBusy False
                            (alert ''Error deleting note. Check console for details.''
                               (console_error ''Error deleting note:'' st)))
      in if truthy (imagePath (stored n)) \<and> isl (fst (remove' B p w)) then failed st1
         else if isl (fst (Note_delete B q (world st1))) then failed st2
         else setBusy False (setNotes_with (filter_out (id' (stored n))) st2))"
  by (auto simp: deleteNote_def deleteNote_try_proj Let_def split: sum.splits)

lemma filter_out_subset: "filter_out i ns = Inr r \<Longrightarrow> set r \<subseteq> set ns"
proof (induction i ns arbitrary: r rule: filter_out.induct)
  case (1 i)
  then show ?case by simp
next
  case (2 i ns)
  then show ?case by simp
next
  case (3 i n ns)
  then show ?case by (auto split: sum.splits if_splits)
qed

lemma setNotes_with_filter_out:
  "x \<in> set (notes (ui (setNotes_with (filter_out i) st))) \<Longrightarrow> x \<in> set (notes (ui st))"
  using filter_out_subset [of i "notes (ui st)"]
  by (auto simp: setNotes_with_def split: sum.splits)

lemma deleteNote_notes: "set (notes (ui (deleteNote B c n s w))) \<subseteq> set (notes s)"
proof (cases c)
  case True
  show ?thesis
  proof
    fix x assume "x \<in> set (notes (ui (deleteNote B c n s w)))"
    with True show "x \<in> set (notes s)"
      by (auto simp: deleteNote_confirmed Let_def split: if_splits dest!: setNotes_with_filter_out)
  qed
next
  case False
  then show ?thesis by (simp add: deleteNote_def)
qed

lemma deleteNote_no_getUrl: "GetUrlCall p \<notin> set (calls (trace (deleteNote B c n s w)))"
proof (cases c)
  case True
  then show ?thesis by (simp add: deleteNote_confirmed Let_def)
next
  case False
  then show ?thesis by (simp add: deleteNote_def)
qed

subsection \<open>The busy flag and the payloads\<close>

lemma guarded_fetch: "guarded False (trace (fetchNotes B s w))"
  by (simp add: fetchNotes_trace guarded_append guarded_map_Remote busy_after_map_Remote)

lemma createNote_guarded: "guarded False (trace (createNote B s w))"
proof (cases "title' (formData s) = [] \<or> content' (formData s) = []")
  case True
  then show ?thesis by (simp add: createNote_blank)
next
  case False
  then have "title' (formData s) \<noteq> []" "content' (formData s) \<noteq> []" by simp_all
  then show ?thesis
    by (cases rule: createNote_cases [of s B w]) simp_all
qed

lemma createNote_busy:
  assumes "calls (trace (createNote B s w)) \<noteq> [] \<or> \<not> busy s"
  shows "\<not> busy (ui (createNote B s w))"
proof (cases "title' (formData s) = [] \<or> content' (formData s) = []")
  case True
  with assms show ?thesis by (simp add: createNote_blank)
next
  case False
  then have "title' (formData s) \<noteq> []" "content' (formData s) \<noteq> []" by simp_all
  then show ?thesis
    by (cases rule: createNote_cases [of s B w]) simp_all
qed

lemma deleteNote_guarded: "guarded False (trace (deleteNote B c n s w))"
  by (cases c) (simp_all add: deleteNote_confirmed Let_def, simp add: deleteNote_def)

lemma deleteNote_busy:
  assumes "calls (trace (deleteNote B c n s w)) \<noteq> [] \<or> \<not> busy s"
  shows "\<not> busy (ui (deleteNote B c n s w))"
proof (cases c)
  case True
  then show ?thesis by (simp add: deleteNote_confirmed Let_def)
next
  case False
  with assms show ?thesis by (simp add: deleteNote_def)
qed

lemma url_has_path_plain [simp]: "url_has_path (map_option plain d)"
  by (cases d) (simp_all add: url_has_path_def)

lemma fetchNotes_no_url_sent: "list_all carries_no_url (calls (trace (fetchNotes B s w)))"
  by (simp add: fetchNotes_calls list_all_iff carries_no_url_def)

lemma createNote_no_url_sent: "list_all carries_no_url (calls (trace (createNote B s w)))"
proof (cases "title' (formData s) = [] \<or> content' (formData s) = []")
  case True
  then show ?thesis by (simp add: createNote_blank)
next
  case False
  then have "title' (formData s) \<noteq> []" "content' (formData s) \<noteq> []" by simp_all
  then show ?thesis
    by (cases rule: createNote_cases [of s B w]) (simp_all add: carries_no_url_def draft_def)
qed

lemma deleteNote_no_url_sent: "list_all carries_no_url (calls (trace (deleteNote B c n s w)))"
  by (cases c) (simp_all add: deleteNote_confirmed Let_def carries_no_url_def, simp add: deleteNote_def)

subsection \<open>Brackets and fulfilled resolutions\<close>

lemma bracketed_snoc:
  "bracketed (SetBusy True # mid @ [SetBusy False]) = list_all (\<lambda>e. \<not> is_SetBusy e) mid"
  by (simp add: bracketed_def butlast_append)

lemma fulfilled_simps [simp]:
  "fulfilled None = False" "fulfilled (Some (Inl e)) = False" "fulfilled (Some (Inr u)) = True"
  by (simp_all add: fulfilled_def)

lemma attach_url: "imageUrl (attach n r) = Some u \<Longrightarrow> r = Some (Inr u)"
  by (cases r rule: reply_cases) simp_all

lemma fetchNotes_bracketed: "bracketed (trace (fetchNotes B s w))"
proof -
  have "list_all (\<lambda>e. \<not> is_SetBusy e) (map (\<lambda>p. Remote (GetUrlCall p)) ps)" for ps
    by (induction ps) simp_all
  then show ?thesis
    using bracketed_snoc
      [of "Remote ListCall # map (\<lambda>p. Remote (GetUrlCall p)) (paths (listed B w))
             @ (if fetch_fails B w
                then [ConsoleError ''Error fetching notes:'',
                      Alert ''Error fetching notes. Check console for details.'']
                else [])"]
    by (simp add: fetchNotes_trace)
qed

lemma createNote_bracketed:
  assumes "title' (formData s) \<noteq> []" "content' (formData s) \<noteq> []"
  shows "bracketed (trace (createNote B s w)) \<and> calls (trace (createNote B s w)) \<noteq> []
       \<and> \<not> busy (ui (createNote B s w))"
  using assms by (cases rule: createNote_cases [of s B w]) (simp_all add: bracketed_def)

lemma deleteNote_bracketed:
  "bracketed (trace (deleteNote B True n s w)) \<and> calls (trace (deleteNote B True n s w)) \<noteq> []
   \<and> \<not> busy (ui (deleteNote B True n s w))"
  by (simp add: deleteNote_confirmed Let_def bracketed_def)

lemma hydrated_resolved:
  assumes ok: "\<not> list_ex rejected (replies B items w)"
      and e: "e \<in> set (map2 attach items (replies B items w))"
  shows "(imageUrl e \<noteq> None)
           = (truthy (imagePath (stored e))
              \<and> list_ex (\<lambda>(n, r). n = stored e \<and> fulfilled r) (zip items (replies B items w)))"
proof (cases "truthy (imagePath (stored e))")
  case False
  with hydrated_url_iff [OF ok e] show ?thesis by simp
next
  case True
  from e obtain i where i: "i < length items" and ei: "e = map2 attach items (replies B items w) ! i"
    by (auto simp: in_set_conv_nth)
  from i ei have st: "stored e = items ! i"
    by (cases "replies B items w ! i" rule: reply_cases) simp_all
  from hydrated_url_iff [OF ok e] True obtain u where u: "imageUrl e = Some u" by auto
  with ei i have "imageUrl (attach (items ! i) (replies B items w ! i)) = Some u" by simp
  then have r: "replies B items w ! i = Some (Inr u)" by (rule attach_url)
  have m: "(items ! i, replies B items w ! i) \<in> set (zip items (replies B items w))"
    using i by (simp add: set_zip) blast
  have "list_ex (\<lambda>(n, r). n = stored e \<and> fulfilled r) (zip items (replies B items w))"
    unfolding list_ex_iff by (rule bexI [OF _ m]) (simp add: st r)
  with True u show ?thesis by simp
qed

lemma fetchNotes_resolved_iff:
  assumes "\<not> fetch_fails B w" and "Some e \<in> set (notes (ui (fetchNotes B s w)))"
  shows "(imageUrl e \<noteq> None) = (truthy (imagePath (stored e)) \<and> resolved_in_fetch B w e)"
proof -
  have "\<not> list_ex rejected (replies B (listed B w) (snd (Note_list B w)))"
    using assms(1) by (auto simp: fetch_fails_def listed_def split: prod.splits sum.splits)
  moreover have "e \<in> set (map2 attach (listed B w) (replies B (listed B w) (snd (Note_list B w))))"
    using assms by (auto simp: fetchNotes_ui listed_replies_def)
  ultimately show ?thesis
    unfolding resolved_in_fetch_def listed_replies_def by (rule hydrated_resolved)
qed

lemma fetchNotes_url_is_reply:
  assumes ok: "\<not> fetch_fails B w" and i: "i < length (listed B w)"
      and u: "notes (ui (fetchNotes B s w)) ! i = Some e" "imageUrl e = Some u"
  shows "listed_replies B w ! i = Some (Inr u)"
proof -
  have "notes (ui (fetchNotes B s w)) ! i = Some (attach (listed B w ! i) (listed_replies B w ! i))"
    using ok i by (simp add: fetchNotes_ui listed_replies_def)
  with u have "imageUrl (attach (listed B w ! i) (listed_replies B w ! i)) = Some u" by simp
  then show ?thesis by (rule attach_url)
qed

section \<open>fetchNotes: all or nothing\<close>

text \<open>
  Claim C1.  Whenever a fetch fails, that is, the list call throws or the gateway rejects
  one of the signed-URL resolutions, the list on display is exactly the list from before
  the call, the user is shown the alert, and \<open>busy\<close> is false afterwards.  The list is
  never replaced in part: after any fetch it is either the old list, or the fetch did not
  fail and the list consists of every listed record, hydrated.
\<close>

theorem fetchNotes_failure_keeps_list:
  "(fetch_fails B w \<longrightarrow>
      notes (ui (fetchNotes B s w)) = notes s
      \<and> Alert ''Error fetching notes. Check console for details.'' \<in> set (trace (fetchNotes B s w))
      \<and> \<not> busy (ui (fetchNotes B s w)))
   \<and> (notes (ui (fetchNotes B s w)) = notes s
      \<or> \<not> fetch_fails B w
        \<and> notes (ui (fetchNotes B s w)) = map Some (map2 attach (listed B w) (listed_replies B w)))"
  by (simp add: fetchNotes_ui fetchNotes_trace)

text \<open>With the expired blob store the list call succeeds, the one resolution is rejected,
  and the two notes on display stay; with the failing platform the list call itself throws.\<close>

theorem fetchNotes_failure_keeps_list_witness:
  "fetch_fails expired_backend 0
   \<and> notes (ui (fetchNotes expired_backend demo_ui 0)) = notes demo_ui
   \<and> Alert ''Error fetching notes. Check console for details.''
       \<in> set (trace (fetchNotes expired_backend demo_ui 0))
   \<and> \<not> busy (ui (fetchNotes expired_backend demo_ui 0))
   \<and> fetch_fails failing_backend 0
   \<and> notes (ui (fetchNotes failing_backend demo_ui 0)) = notes demo_ui"
proof -
  have 1: "fetch_fails expired_backend 0"
    by (simp add: fetch_fails_def expired_backend_def demo_backend_def demo_records_def
          items_of_def truthy_def)
  have 2: "fetch_fails failing_backend 0"
    by (simp add: fetch_fails_def failing_backend_def)
  from 1 2 fetchNotes_failure_keeps_list [of expired_backend 0 demo_ui]
       fetchNotes_failure_keeps_list [of failing_backend 0 demo_ui]
  show ?thesis by simp
qed

section \<open>createNote: validation\<close>

text \<open>
  Claim C2.  When the draft title or the draft content is empty, \<open>createNote\<close> issues no
  backend call at all: its only effect is the validation alert.  The component state (the
  list, the form, the file selection, and the busy flag with them) and the backend state
  are what they were.
\<close>

theorem createNote_blank_form_rejected:
  assumes "title' (formData s) = [] \<or> content' (formData s) = []"
  shows "calls (trace (createNote B s w)) = []
       \<and> trace (createNote B s w) = [Alert ''Please provide a title and content'']
       \<and> ui (createNote B s w) = s
       \<and> world (createNote B s w) = w"
  using assms by (simp add: createNote_blank)

theorem createNote_blank_form_rejected_witness:
  "title' (formData (demo_ui\<lparr>formData := \<lparr>title' = [], content' = ''B''\<rparr>, file := Some photo\<rparr>)) = []
   \<and> calls (trace (createNote demo_backend (demo_ui\<lparr>formData := \<lparr>title' = [], content' = ''B''\<rparr>, file := Some photo\<rparr>) 0)) = []
   \<and> trace (createNote demo_backend (demo_ui\<lparr>formData := \<lparr>title' = [], content' = ''B''\<rparr>, file := Some photo\<rparr>) 0)
       = [Alert ''Please provide a title and content'']
   \<and> ui (createNote demo_backend (demo_ui\<lparr>formData := \<lparr>title' = [], content' = ''B''\<rparr>, file := Some photo\<rparr>) 0)
       = demo_ui\<lparr>formData := \<lparr>title' = [], content' = ''B''\<rparr>, file := Some photo\<rparr>
   \<and> world (createNote demo_backend (demo_ui\<lparr>formData := \<lparr>title' = [], content' = ''B''\<rparr>, file := Some photo\<rparr>) 0) = 0"
  using createNote_blank_form_rejected
          [where s = "demo_ui\<lparr>formData := \<lparr>title' = [], content' = ''B''\<rparr>, file := Some photo\<rparr>"
             and B = demo_backend and w = 0]
  by simp

section \<open>deleteNote: the blob first, then the record\<close>

text \<open>
  Claim C3.  A confirmed delete of a note whose \<^verbatim>\<open>imagePath\<close> is falsy (absent, or the empty
  string) issues the record-delete call and no other.  For a note whose \<^verbatim>\<open>imagePath\<close> is a
  path \<open>p\<close>, the first call is the blob delete of \<open>p\<close>; if it is rejected, no further call is
  issued, so the record stays in the store (the backend state is the one the blob handler
  left) and the list on display is unchanged; if it succeeds, the record-delete call
  follows it.
\<close>

theorem deleteNote_blob_before_record:
  "(\<not> truthy (imagePath (stored n)) \<longrightarrow>
      calls (trace (deleteNote B True n s w)) = [DeleteCall [(''id'', id' (stored n))]])
   \<and> (imagePath (stored n) = Some p \<and> p \<noteq> [] \<longrightarrow>
        (isl (fst (remove' B p w)) \<longrightarrow>
           calls (trace (deleteNote B True n s w)) = [RemoveCall p]
           \<and> notes (ui (deleteNote B True n s w)) = notes s
           \<and> world (deleteNote B True n s w) = snd (remove' B p w))
      \<and> (\<not> isl (fst (remove' B p w)) \<longrightarrow>
           calls (trace (deleteNote B True n s w)) = [RemoveCall p, DeleteCall [(''id'', id' (stored n))]]))"
  by (auto simp: deleteNote_confirmed Let_def truthy_def)

theorem deleteNote_blob_before_record_witness:
  "\<not> truthy (imagePath (stored (plain (demo_records ! 0))))
   \<and> calls (trace (deleteNote demo_backend True (plain (demo_records ! 0)) demo_ui 0))
       = [DeleteCall [(''id'', ''1'')]]
   \<and> imagePath (stored (plain (demo_records ! 1))) = Some ''images/2-beach.png''
   \<and> isl (fst (remove' failing_backend ''images/2-beach.png'' 0))
   \<and> calls (trace (deleteNote failing_backend True (plain (demo_records ! 1)) demo_ui 0))
       = [RemoveCall ''images/2-beach.png'']
   \<and> notes (ui (deleteNote failing_backend True (plain (demo_records ! 1)) demo_ui 0)) = notes demo_ui
   \<and> \<not> isl (fst (remove' demo_backend ''images/2-beach.png'' 0))
   \<and> calls (trace (deleteNote demo_backend True (plain (demo_records ! 1)) demo_ui 0))
       = [RemoveCall ''images/2-beach.png'', DeleteCall [(''id'', ''2'')]]"
  using deleteNote_blob_before_record
          [where n = "plain (demo_records ! 0)" and B = demo_backend and s = demo_ui and w = 0]
        deleteNote_blob_before_record
          [where n = "plain (demo_records ! 1)" and p = "''images/2-beach.png''"
             and B = failing_backend and s = demo_ui and w = 0]
        deleteNote_blob_before_record
          [where n = "plain (demo_records ! 1)" and p = "''images/2-beach.png''"
             and B = demo_backend and s = demo_ui and w = 0]
  by (simp add: demo_records_def truthy_def demo_backend_def failing_backend_def)

section \<open>createNote: where the file goes\<close>

text \<open>
  Claim C4.  In a create with a valid draft and a file selected, once the store has answered
  the create call with a record, the second call uploads the file to the path
  \<^verbatim>\<open>images/{id}-{filename}\<close>, built from the identifier of that record and the name of the
  file, with the file's declared content type; and when the upload returns a path, the
  third and last call updates the record with its identifier and that path.  For the
  identifier \<open>123\<close> and the file \<open>photo.png\<close> the upload path is \<open>images/123-photo.png\<close>.
\<close>

theorem createNote_upload_path:
  assumes valid: "title' (formData s) \<noteq> [] \<and> content' (formData s) \<noteq> []"
      and sel: "file s = Some fl"
      and created: "Note_create B (draft s) w = (Inr (Resp (Some nn)), w1)"
  shows "take 2 (calls (trace (createNote B s w)))
           = [CreateCall (draft s), UploadCall (''images/'' @ id' nn @ ''-'' @ name fl) fl (type' fl)]
       \<and> (uploadData B (''images/'' @ id' nn @ ''-'' @ name fl) fl (type' fl) w1 = (Inr result_path, w2) \<longrightarrow>
            calls (trace (createNote B s w))
              = [CreateCall (draft s), UploadCall (''images/'' @ id' nn @ ''-'' @ name fl) fl (type' fl),
                 UpdateCall [(''id'', id' nn), (''imagePath'', result_path)]])
       \<and> (id' nn = ''123'' \<and> name fl = ''photo.png'' \<longrightarrow>
            take 2 (calls (trace (createNote B s w)))
              = [CreateCall (draft s), UploadCall ''images/123-photo.png'' fl (type' fl)])"
proof -
  let ?path = "''images/'' @ id' nn @ ''-'' @ name fl"
  let ?up = "UploadCall ?path fl (type' fl)"
  from valid have v: "title' (formData s) \<noteq> []" "content' (formData s) \<noteq> []" by simp_all
  have uploaded: "calls (trace (createNote B s w))
                    = [CreateCall (draft s), ?up, UpdateCall [(''id'', id' nn), (''imagePath'', p)]]"
    if u: "uploadData B ?path fl (type' fl) w1 = (Inr p, w2')" for p w2'
  proof (cases "fst (Note_update B [(''id'', id' nn), (''imagePath'', p)] w2')" rule: resp_cases)
    case (1 e)
    then have "fst (Note_update B [(''id'', id' nn), (''imagePath'', p)] w2') = Inl e
             \<or> fst (Note_update B [(''id'', id' nn), (''imagePath'', p)] w2') = Inr Nullish"
      by simp
    from createNote_update_fails(1) [OF v created sel u this] show ?thesis by simp
  next
    case 2
    then have "fst (Note_update B [(''id'', id' nn), (''imagePath'', p)] w2') = Inl TypeError
             \<or> fst (Note_update B [(''id'', id' nn), (''imagePath'', p)] w2') = Inr Nullish"
      by simp
    from createNote_update_fails(1) [OF v created sel u this] show ?thesis by simp
  next
    case (3 d)
    from createNote_attached(1) [OF v created sel u 3] show ?thesis by simp
  qed
  have two: "take 2 (calls (trace (createNote B s w))) = [CreateCall (draft s), ?up]"
  proof (cases "uploadData B ?path fl (type' fl) w1")
    case (Pair r w2')
    show ?thesis
    proof (cases r)
      case (Inl e)
      with Pair have "fst (uploadData B ?path fl (type' fl) w1) = Inl e" by simp
      from createNote_upload_fails(1) [OF v created sel this] show ?thesis by simp
    next
      case (Inr p)
      with Pair uploaded [of p w2'] show ?thesis by simp
    qed
  qed
  have scenario: "take 2 (calls (trace (createNote B s w)))
                    = [CreateCall (draft s), UploadCall ''images/123-photo.png'' fl (type' fl)]"
    if "id' nn = ''123''" "name fl = ''photo.png''"
    using two that by simp
  from two uploaded scenario show ?thesis by blast
qed

theorem createNote_upload_path_witness:
  "title' (formData (demo_ui\<lparr>file := Some photo\<rparr>)) \<noteq> []
   \<and> content' (formData (demo_ui\<lparr>file := Some photo\<rparr>)) \<noteq> []
   \<and> Note_create demo_backend (draft (demo_ui\<lparr>file := Some photo\<rparr>)) 0
       = (Inr (Resp (Some \<lparr>id' = ''123'', title = ''A'', content = ''B'', imagePath = None\<rparr>)), 1)
   \<and> uploadData demo_backend ''images/123-photo.png'' photo ''image/png'' 1
       = (Inr ''images/123-photo.png'', 2)
   \<and> calls (trace (createNote demo_backend (demo_ui\<lparr>file := Some photo\<rparr>) 0))
       = [CreateCall [(''title'', ''A''), (''content'', ''B'')],
          UploadCall ''images/123-photo.png'' photo ''image/png'',
          UpdateCall [(''id'', ''123''), (''imagePath'', ''images/123-photo.png'')]]"
  using createNote_upload_path
          [where s = "demo_ui\<lparr>file := Some photo\<rparr>" and fl = photo and B = demo_backend and w = 0
             and nn = "\<lparr>id' = ''123'', title = ''A'', content = ''B'', imagePath = None\<rparr>" and ?w1.0 = 1
             and result_path = "''images/123-photo.png''" and ?w2.0 = 2]
  by (simp add: demo_ui_def demo_backend_def draft_def field_def photo_def)

section \<open>The busy flag\<close>

text \<open>
  Claim C5.  Every run of \<open>fetchNotes\<close>, every run of \<open>createNote\<close> on a valid draft and every
  confirmed run of \<open>deleteNote\<close>, whatever the backend answers, sets the busy flag first and
  clears it last, does not touch it in between, issues at least one backend call, and so
  issues every backend call while the flag is set; the flag is off when the run ends.  The
  two early returns are not such runs: a \<open>createNote\<close> on a blank draft issues no call and
  leaves the component state as it was, and a declined \<open>deleteNote\<close> does nothing at all.
  Hence every run of every workflow that starts with the flag off, as every run started
  from a control of the page does, ends with the flag off.
\<close>

theorem busy_brackets_every_workflow:
  "bracketed (trace (fetchNotes B s w)) \<and> calls (trace (fetchNotes B s w)) \<noteq> []
   \<and> \<not> busy (ui (fetchNotes B s w))
   \<and> (title' (formData s) \<noteq> [] \<and> content' (formData s) \<noteq> [] \<longrightarrow>
        bracketed (trace (createNote B s w)) \<and> calls (trace (createNote B s w)) \<noteq> []
        \<and> \<not> busy (ui (createNote B s w)))
   \<and> (title' (formData s) = [] \<or> content' (formData s) = [] \<longrightarrow>
        calls (trace (createNote B s w)) = [] \<and> ui (createNote B s w) = s)
   \<and> bracketed (trace (deleteNote B True n s w)) \<and> calls (trace (deleteNote B True n s w)) \<noteq> []
   \<and> \<not> busy (ui (deleteNote B True n s w))
   \<and> trace (deleteNote B False n s w) = [] \<and> ui (deleteNote B False n s w) = s
   \<and> guarded False (trace (fetchNotes B s w))
   \<and> guarded False (trace (createNote B s w))
   \<and> guarded False (trace (deleteNote B c n s w))
   \<and> (\<not> busy s \<longrightarrow> \<not> busy (ui (createNote B s w)) \<and> \<not> busy (ui (deleteNote B c n s w)))"
proof -
  have fetch: "bracketed (trace (fetchNotes B s w)) \<and> calls (trace (fetchNotes B s w)) \<noteq> []
             \<and> \<not> busy (ui (fetchNotes B s w))"
    by (simp add: fetchNotes_bracketed fetchNotes_calls fetchNotes_ui)
  have create: "bracketed (trace (createNote B s w)) \<and> calls (trace (createNote B s w)) \<noteq> []
              \<and> \<not> busy (ui (createNote B s w))"
    if "title' (formData s) \<noteq> [] \<and> content' (formData s) \<noteq> []"
    using that createNote_bracketed [of s B w] by simp
  have rejected: "calls (trace (createNote B s w)) = [] \<and> ui (createNote B s w) = s"
    if "title' (formData s) = [] \<or> content' (formData s) = []"
    using that by (simp add: createNote_blank)
  have declined: "trace (deleteNote B False n s w) = [] \<and> ui (deleteNote B False n s w) = s"
    by (simp add: deleteNote_def)
  have g: "guarded False (trace (fetchNotes B s w))" "guarded False (trace (createNote B s w))"
          "guarded False (trace (deleteNote B c n s w))"
    by (rule guarded_fetch, rule createNote_guarded, rule deleteNote_guarded)
  have idle: "\<not> busy (ui (createNote B s w)) \<and> \<not> busy (ui (deleteNote B c n s w))" if "\<not> busy s"
    using that createNote_busy [of B s w] deleteNote_busy [of B c n s w] by simp
  from fetch create rejected deleteNote_bracketed [of B n s w] declined g idle
  show ?thesis by blast
qed

text \<open>On the failing platform each workflow sets the flag, issues its first call, reports
  the error and clears the flag; on a blank draft nothing is called.\<close>

theorem busy_brackets_every_workflow_witness:
  "title' (formData demo_ui) \<noteq> [] \<and> content' (formData demo_ui) \<noteq> []
   \<and> trace (fetchNotes failing_backend demo_ui 0)
       = [SetBusy True, Remote ListCall, ConsoleError ''Error fetching notes:'',
          Alert ''Error fetching notes. Check console for details.'', SetBusy False]
   \<and> bracketed (trace (fetchNotes failing_backend demo_ui 0))
   \<and> \<not> busy (ui (fetchNotes failing_backend demo_ui 0))
   \<and> trace (createNote failing_backend demo_ui 0)
       = [SetBusy True, Remote (CreateCall [(''title'', ''A''), (''content'', ''B'')]),
          ConsoleError ''Error creating note:'',
          Alert ''Error creating note. Check console for details.'', SetBusy False]
   \<and> bracketed (trace (createNote failing_backend demo_ui 0))
   \<and> calls (trace (createNote failing_backend demo_ui 0)) \<noteq> []
   \<and> \<not> busy (ui (createNote failing_backend demo_ui 0))
   \<and> bracketed (trace (deleteNote failing_backend True (plain (demo_records ! 1)) demo_ui 0))
   \<and> calls (trace (deleteNote failing_backend True (plain (demo_records ! 1)) demo_ui 0)) \<noteq> []
   \<and> \<not> busy (ui (deleteNote failing_backend True (plain (demo_records ! 1)) demo_ui 0))
   \<and> title' (formData (demo_ui\<lparr>formData := \<lparr>title' = [], content' = ''B''\<rparr>\<rparr>)) = []
   \<and> \<not> busy (demo_ui\<lparr>formData := \<lparr>title' = [], content' = ''B''\<rparr>\<rparr>)
   \<and> calls (trace (createNote demo_backend (demo_ui\<lparr>formData := \<lparr>title' = [], content' = ''B''\<rparr>\<rparr>) 0)) = []
   \<and> \<not> busy (ui (createNote demo_backend (demo_ui\<lparr>formData := \<lparr>title' = [], content' = ''B''\<rparr>\<rparr>) 0))"
proof -
  have valid: "title' (formData demo_ui) \<noteq> []" "content' (formData demo_ui) \<noteq> []"
    by (simp_all add: demo_ui_def)
  have idle: "\<not> busy (demo_ui\<lparr>formData := \<lparr>title' = [], content' = ''B''\<rparr>\<rparr>)"
    by (simp add: demo_ui_def)
  have ff: "fetch_fails failing_backend 0" "listed failing_backend 0 = []"
    by (simp_all add: fetch_fails_def listed_def failing_backend_def)
  have tf: "trace (fetchNotes failing_backend demo_ui 0)
       = [SetBusy True, Remote ListCall, ConsoleError ''Error fetching notes:'',
          Alert ''Error fetching notes. Check console for details.'', SetBusy False]"
    by (simp add: fetchNotes_trace ff paths_def)
  have "fst (Note_create failing_backend (draft demo_ui) 0) = Inl (RemoteError ''Network error'')
      \<or> fst (Note_create failing_backend (draft demo_ui) 0) = Inr Nullish"
    by (simp add: failing_backend_def)
  from createNote_create_fails(1) [OF valid this]
  have tc: "trace (createNote failing_backend demo_ui 0)
       = [SetBusy True, Remote (CreateCall [(''title'', ''A''), (''content'', ''B'')]),
          ConsoleError ''Error creating note:'',
          Alert ''Error creating note. Check console for details.'', SetBusy False]"
    by (simp add: draft_def demo_ui_def)
  from busy_brackets_every_workflow
         [where s = demo_ui and B = failing_backend and w = 0 and c = True
            and n = "plain (demo_records ! 1)"]
       busy_brackets_every_workflow
         [where s = "demo_ui\<lparr>formData := \<lparr>title' = [], content' = ''B''\<rparr>\<rparr>" and B = demo_backend
            and w = 0 and c = True and n = "plain (demo_records ! 1)"]
       valid idle tf tc
  show ?thesis by simp
qed

section \<open>fetchNotes: hydration\<close>



section \<open>createNote: the list and the form after a create\<close>

text \<open>
  Claim C7.  After a create with a valid draft that the store answers with a record, and in
  which nothing throws: with no file selected the created record, and with a file selected
  and uploaded the record the store returned from the update, is the last entry of the
  list, after the entries that were there, which are unchanged; the draft title and
  content are empty and no file is selected.  Starting from the empty list with the draft
  \<open>A\<close>, \<open>B\<close> and no file, where the store answers with a record of that title and content and
  no \<^verbatim>\<open>imagePath\<close>, the list has exactly one entry, with title \<open>A\<close>, content \<open>B\<close> and no
  \<^verbatim>\<open>imagePath\<close>.
\<close>

theorem createNote_appends_final_record:
  assumes valid: "title' (formData s) \<noteq> [] \<and> content' (formData s) \<noteq> []"
      and created: "Note_create B (draft s) w = (Inr (Resp (Some nn)), w1)"
  shows "(file s = None \<longrightarrow>
            ui (createNote B s w)
              = s\<lparr>notes := notes s @ [Some (plain nn)],
                  formData := \<lparr>title' = [], content' = []\<rparr>, file := None, busy := False\<rparr>)
       \<and> (file s = Some fl
            \<and> uploadData B (''images/'' @ id' nn @ ''-'' @ name fl) fl (type' fl) w1 = (Inr result_path, w2)
            \<and> Note_update B [(''id'', id' nn), (''imagePath'', result_path)] w2 = (Inr (Resp (Some updated)), w3) \<longrightarrow>
            ui (createNote B s w)
              = s\<lparr>notes := notes s @ [Some (plain updated)],
                  formData := \<lparr>title' = [], content' = []\<rparr>, file := None, busy := False\<rparr>)
       \<and> (notes s = [] \<and> file s = None \<and> title' (formData s) = ''A'' \<and> content' (formData s) = ''B''
            \<and> title nn = ''A'' \<and> content nn = ''B'' \<and> imagePath nn = None \<longrightarrow>
            notes (ui (createNote B s w))
              = [Some \<lparr>stored = \<lparr>id' = id' nn, title = ''A'', content = ''B'', imagePath = None\<rparr>,
                       imageUrl = None\<rparr>])"
proof -
  from valid have v: "title' (formData s) \<noteq> []" "content' (formData s) \<noteq> []" by simp_all
  from created have c: "fst (Note_create B (draft s) w) = Inr (Resp (Some nn))" by simp
  have plain_create: "ui (createNote B s w)
              = s\<lparr>notes := notes s @ [Some (plain nn)],
                  formData := \<lparr>title' = [], content' = []\<rparr>, file := None, busy := False\<rparr>"
    if "file s = None"
    using createNote_no_upload(2) [OF v c] that by simp
  have with_file: "ui (createNote B s w)
              = s\<lparr>notes := notes s @ [Some (plain updated)],
                  formData := \<lparr>title' = [], content' = []\<rparr>, file := None, busy := False\<rparr>"
    if "file s = Some fl"
       "uploadData B (''images/'' @ id' nn @ ''-'' @ name fl) fl (type' fl) w1 = (Inr result_path, w2)"
       "Note_update B [(''id'', id' nn), (''imagePath'', result_path)] w2 = (Inr (Resp (Some updated)), w3)"
    using createNote_attached(2) [OF v created that(1,2), of "Some updated"] that(3) by simp
  have scenario: "notes (ui (createNote B s w))
              = [Some \<lparr>stored = \<lparr>id' = id' nn, title = ''A'', content = ''B'', imagePath = None\<rparr>,
                       imageUrl = None\<rparr>]"
    if "notes s = []" "file s = None" "title nn = ''A''" "content nn = ''B''" "imagePath nn = None"
    using plain_create [OF that(2)] that(1,3,4,5) by (simp add: plain_def)
  from plain_create with_file scenario show ?thesis by blast
qed

theorem createNote_appends_final_record_witness:
  "title' (formData (initial_ui\<lparr>formData := \<lparr>title' = ''A'', content' = ''B''\<rparr>\<rparr>)) \<noteq> []
   \<and> content' (formData (initial_ui\<lparr>formData := \<lparr>title' = ''A'', content' = ''B''\<rparr>\<rparr>)) \<noteq> []
   \<and> Note_create demo_backend (draft (initial_ui\<lparr>formData := \<lparr>title' = ''A'', content' = ''B''\<rparr>\<rparr>)) 0
       = (Inr (Resp (Some \<lparr>id' = ''123'', title = ''A'', content = ''B'', imagePath = None\<rparr>)), 1)
   \<and> notes (ui (createNote demo_backend (initial_ui\<lparr>formData := \<lparr>title' = ''A'', content' = ''B''\<rparr>\<rparr>) 0))
       = [Some \<lparr>stored = \<lparr>id' = ''123'', title = ''A'', content = ''B'', imagePath = None\<rparr>,
                imageUrl = None\<rparr>]
   \<and> formData (ui (createNote demo_backend (initial_ui\<lparr>formData := \<lparr>title' = ''A'', content' = ''B''\<rparr>\<rparr>) 0))
       = \<lparr>title' = [], content' = []\<rparr>
   \<and> file (demo_ui\<lparr>file := Some photo\<rparr>) = Some photo
   \<and> Note_update demo_backend [(''id'', ''123''), (''imagePath'', ''images/123-photo.png'')] 2
       = (Inr (Resp (Some \<lparr>id' = ''123'', title = ''A'', content = ''B'',
                            imagePath = Some ''images/123-photo.png''\<rparr>)), 3)
   \<and> ui (createNote demo_backend (demo_ui\<lparr>file := Some photo\<rparr>) 0)
       = demo_ui\<lparr>notes := notes demo_ui
                    @ [Some (plain \<lparr>id' = ''123'', title = ''A'', content = ''B'',
                                    imagePath = Some ''images/123-photo.png''\<rparr>)],
                 formData := \<lparr>title' = [], content' = []\<rparr>, file := None, busy := False\<rparr>"
  using createNote_appends_final_record
          [where s = "initial_ui\<lparr>formData := \<lparr>title' = ''A'', content' = ''B''\<rparr>\<rparr>"
             and B = demo_backend and w = 0
             and nn = "\<lparr>id' = ''123'', title = ''A'', content = ''B'', imagePath = None\<rparr>" and ?w1.0 = 1]
        createNote_appends_final_record
          [where s = "demo_ui\<lparr>file := Some photo\<rparr>" and B = demo_backend and w = 0
             and nn = "\<lparr>id' = ''123'', title = ''A'', content = ''B'', imagePath = None\<rparr>" and ?w1.0 = 1
             and fl = photo and result_path = "''images/123-photo.png''" and ?w2.0 = 2
             and updated = "\<lparr>id' = ''123'', title = ''A'', content = ''B'',
                             imagePath = Some ''images/123-photo.png''\<rparr>" and ?w3.0 = 3]
  by (simp add: initial_ui_def demo_ui_def demo_backend_def draft_def field_def photo_def)

section \<open>imageUrl is derived, and stays local\<close>

text \<open>
  Claim C8 says that after any workflow every note in the list carries an \<^verbatim>\<open>imageUrl\<close> if and
  only if its \<^verbatim>\<open>imagePath\<close> is present and the signed-URL resolution succeeded.  That fails
  after a fetch that fails as a whole: the list shows the second example record without a
  URL, the store lists it together with the attached record, the gateway fulfils the
  resolution of its path and rejects the other one, and the fetch leaves the list as it
  was.  The note is in the list, its \<^verbatim>\<open>imagePath\<close> is present, its own resolution succeeded, and
  it carries no \<^verbatim>\<open>imageUrl\<close>.
\<close>

theorem imageUrl_iff_counterexample:
  "Some (plain (demo_records ! 1)) \<in> set (notes (ui (fetchNotes half_expired_backend stale_ui 0)))
   \<and> \<not> ((imageUrl (plain (demo_records ! 1)) \<noteq> None)
          = (truthy (imagePath (stored (plain (demo_records ! 1))))
             \<and> resolved_in_fetch half_expired_backend 0 (plain (demo_records ! 1))))"
proof -
  have l: "Note_list half_expired_backend 0 = (Inr (Resp (Some (demo_records @ [attached_record]))), 1)"
    by (simp add: half_expired_backend_def later_backend_def demo_backend_def)
  have items: "listed half_expired_backend 0 = demo_records @ [attached_record]"
    by (simp add: listed_def l items_of_def)
  have rs: "listed_replies half_expired_backend 0
              = [None, Some (Inr ''https://blobs.example/images/2-beach.png''),
                 Some (Inl (RemoteError ''Expired''))]"
    unfolding listed_replies_def items l
    by (simp add: demo_records_def attached_record_def truthy_def
          half_expired_backend_def later_backend_def demo_backend_def)
  have fails: "fetch_fails half_expired_backend 0"
    using rs by (simp add: fetch_fails_def l listed_replies_def items items_of_def)
  have kept: "notes (ui (fetchNotes half_expired_backend stale_ui 0)) = [Some (plain (demo_records ! 1))]"
    using fails by (simp add: fetchNotes_ui stale_ui_def)
  have res: "resolved_in_fetch half_expired_backend 0 (plain (demo_records ! 1))"
    by (simp add: resolved_in_fetch_def items rs demo_records_def)
  have t: "truthy (imagePath (stored (plain (demo_records ! 1))))"
    by (simp add: demo_records_def truthy_def)
  from kept res t show ?thesis by simp
qed

text \<open>
  Claim C8, amended.  An entry of the list on display carries an \<^verbatim>\<open>imageUrl\<close> only if its
  \<^verbatim>\<open>imagePath\<close> is present (truthy): this holds of the empty initial list and each of the three
  workflows preserves it, whatever the backend answers.  After a fetch that did not fail,
  an entry carries an \<^verbatim>\<open>imageUrl\<close> if and only if its \<^verbatim>\<open>imagePath\<close> is present, if and only if
  its \<^verbatim>\<open>imagePath\<close> is present and its resolution in that fetch succeeded; and the URL it
  carries is the gateway's answer to the resolution at its position.  A fetch that fails
  leaves the list as it was.  The other two workflows resolve nothing and attach nothing:
  they issue no \<^verbatim>\<open>getUrl\<close> call, a create leaves the list as it was or appends one entry without
  \<^verbatim>\<open>imageUrl\<close>, and a delete leaves only entries that were there.  No call of any workflow
  sends an \<^verbatim>\<open>imageUrl\<close> property to the store, and every update call sends exactly \<^verbatim>\<open>id\<close> and
  \<^verbatim>\<open>imagePath\<close>.
\<close>

theorem imageUrl_only_from_resolution:
  assumes inv: "list_all url_has_path (notes s)"
  shows "list_all url_has_path (notes initial_ui)
       \<and> list_all url_has_path (notes (ui (fetchNotes B s w)))
       \<and> list_all url_has_path (notes (ui (createNote B s w)))
       \<and> list_all url_has_path (notes (ui (deleteNote B c n s w)))
       \<and> (\<not> fetch_fails B w \<longrightarrow>
            (\<forall>e. Some e \<in> set (notes (ui (fetchNotes B s w))) \<longrightarrow>
                 (imageUrl e \<noteq> None) = truthy (imagePath (stored e))
                 \<and> (imageUrl e \<noteq> None) = (truthy (imagePath (stored e)) \<and> resolved_in_fetch B w e))
          \<and> (\<forall>i e u. i < length (listed B w) \<and> notes (ui (fetchNotes B s w)) ! i = Some e
                       \<and> imageUrl e = Some u \<longrightarrow> listed_replies B w ! i = Some (Inr u)))
       \<and> (fetch_fails B w \<longrightarrow> notes (ui (fetchNotes B s w)) = notes s)
       \<and> (notes (ui (createNote B s w)) = notes s
          \<or> (\<exists>d. notes (ui (createNote B s w)) = notes s @ [map_option plain d]))
       \<and> set (notes (ui (deleteNote B c n s w))) \<subseteq> set (notes s)
       \<and> (\<forall>p. GetUrlCall p \<notin> set (calls (trace (createNote B s w)))
              \<and> GetUrlCall p \<notin> set (calls (trace (deleteNote B c n s w))))
       \<and> list_all carries_no_url (calls (trace (fetchNotes B s w)))
       \<and> list_all carries_no_url (calls (trace (createNote B s w)))
       \<and> list_all carries_no_url (calls (trace (deleteNote B c n s w)))"
proof -
  have fetch_iff: "(imageUrl e \<noteq> None) = truthy (imagePath (stored e))
                 \<and> (imageUrl e \<noteq> None) = (truthy (imagePath (stored e)) \<and> resolved_in_fetch B w e)"
    if "\<not> fetch_fails B w" "Some e \<in> set (notes (ui (fetchNotes B s w)))" for e
    using fetchNotes_url_iff [OF that] fetchNotes_resolved_iff [OF that] by simp
  have tie: "listed_replies B w ! i = Some (Inr u)"
    if "\<not> fetch_fails B w" "i < length (listed B w)" "notes (ui (fetchNotes B s w)) ! i = Some e"
       "imageUrl e = Some u" for i e u
    using that by (rule fetchNotes_url_is_reply)
  have kept: "notes (ui (fetchNotes B s w)) = notes s" if "fetch_fails B w"
    using that by (simp add: fetchNotes_ui)
  have f: "list_all url_has_path (notes (ui (fetchNotes B s w)))"
  proof (cases "fetch_fails B w")
    case True
    with inv kept show ?thesis by simp
  next
    case False
    have "url_has_path x" if "x \<in> set (notes (ui (fetchNotes B s w)))" for x
    proof (cases x)
      case None
      then show ?thesis by (simp add: url_has_path_def)
    next
      case (Some e)
      with that False fetch_iff [of e] show ?thesis by (simp add: url_has_path_def)
    qed
    then show ?thesis by (simp add: list_all_iff)
  qed
  have c: "list_all url_has_path (notes (ui (createNote B s w)))"
    using createNote_notes [of B s w] inv by auto
  have d: "list_all url_has_path (notes (ui (deleteNote B c n s w)))"
    using deleteNote_notes [of B c n s w] inv by (auto simp: list_all_iff)
  have local: "(notes (ui (createNote B s w)) = notes s
                 \<or> (\<exists>d. notes (ui (createNote B s w)) = notes s @ [map_option plain d]))
             \<and> set (notes (ui (deleteNote B c n s w))) \<subseteq> set (notes s)
             \<and> (\<forall>p. GetUrlCall p \<notin> set (calls (trace (createNote B s w)))
                    \<and> GetUrlCall p \<notin> set (calls (trace (deleteNote B c n s w))))"
    using createNote_notes [of B s w] deleteNote_notes [of B c n s w]
    by (simp add: createNote_no_getUrl deleteNote_no_getUrl)
  have sent: "list_all carries_no_url (calls (trace (fetchNotes B s w)))
            \<and> list_all carries_no_url (calls (trace (createNote B s w)))
            \<and> list_all carries_no_url (calls (trace (deleteNote B c n s w)))"
    by (simp add: fetchNotes_no_url_sent createNote_no_url_sent deleteNote_no_url_sent)
  have init: "list_all url_has_path (notes initial_ui)"
    by (simp add: initial_ui_def)
  from init f c d fetch_iff tie kept local sent show ?thesis
    by blast
qed

theorem imageUrl_only_from_resolution_witness:
  "list_all url_has_path (notes demo_ui)
   \<and> \<not> fetch_fails demo_backend 0
   \<and> list_all url_has_path (notes (ui (fetchNotes demo_backend demo_ui 0)))
   \<and> list_all url_has_path (notes (ui (createNote demo_backend (demo_ui\<lparr>file := Some photo\<rparr>) 0)))
   \<and> list_all url_has_path (notes (ui (deleteNote demo_backend True (plain (demo_records ! 0)) demo_ui 0)))
   \<and> list_all carries_no_url (calls (trace (createNote demo_backend (demo_ui\<lparr>file := Some photo\<rparr>) 0)))
   \<and> list_all url_has_path (notes stale_ui)
   \<and> fetch_fails expired_backend 0
   \<and> notes (ui (fetchNotes expired_backend stale_ui 0)) = notes stale_ui"
proof -
  have inv: "list_all url_has_path (notes demo_ui)"
    by (simp add: demo_ui_def url_has_path_def demo_records_def truthy_def)
  then have inv': "list_all url_has_path (notes (demo_ui\<lparr>file := Some photo\<rparr>))"
    by simp
  have inv'': "list_all url_has_path (notes stale_ui)"
    by (simp add: stale_ui_def url_has_path_def)
  have ok: "\<not> fetch_fails demo_backend 0"
    by (simp add: fetch_fails_def demo_backend_def demo_records_def items_of_def truthy_def rejected_def)
  have ko: "fetch_fails expired_backend 0"
    by (simp add: fetch_fails_def expired_backend_def demo_backend_def demo_records_def
          items_of_def truthy_def)
  from imageUrl_only_from_resolution
         [OF inv, where B = demo_backend and w = 0 and c = True and n = "plain (demo_records ! 0)"]
       imageUrl_only_from_resolution
         [OF inv', where B = demo_backend and w = 0 and c = True and n = "plain (demo_records ! 0)"]
       imageUrl_only_from_resolution
         [OF inv'', where B = expired_backend and w = 0 and c = True and n = "plain (demo_records ! 0)"]
       inv inv'' ok ko
  show ?thesis by simp
qed

section \<open>createNote: a create answered with no data\<close>

text \<open>
  Claim C9.  When the create call returns without throwing and its \<^verbatim>\<open>data\<close> is \<^verbatim>\<open>null\<close>, then
  whether or not a file is selected the create call is the only call of the run (no upload,
  no update), \<^verbatim>\<open>null\<close> is appended to the list on display, the form and the file selection
  are cleared, and no alert is raised.
\<close>

theorem createNote_null_data:
  assumes valid: "title' (formData s) \<noteq> [] \<and> content' (formData s) \<noteq> []"
      and created: "Note_create B (draft s) w = (Inr (Resp None), w1)"
  shows "trace (createNote B s w) = [SetBusy True, Remote (CreateCall (draft s)), SetBusy False]
       \<and> ui (createNote B s w)
           = s\<lparr>notes := notes s @ [None], formData := \<lparr>title' = [], content' = []\<rparr>,
               file := None, busy := False\<rparr>"
proof -
  from valid have v: "title' (formData s) \<noteq> []" "content' (formData s) \<noteq> []" by simp_all
  from created have "fst (Note_create B (draft s) w) = Inr (Resp None)" by simp
  from createNote_no_upload [OF v this] show ?thesis by simp
qed

theorem createNote_null_data_witness:
  "title' (formData (demo_ui\<lparr>file := Some photo\<rparr>)) \<noteq> []
   \<and> content' (formData (demo_ui\<lparr>file := Some photo\<rparr>)) \<noteq> []
   \<and> Note_create silent_backend (draft (demo_ui\<lparr>file := Some photo\<rparr>)) 0 = (Inr (Resp None), 1)
   \<and> trace (createNote silent_backend (demo_ui\<lparr>file := Some photo\<rparr>) 0)
       = [SetBusy True, Remote (CreateCall [(''title'', ''A''), (''content'', ''B'')]), SetBusy False]
   \<and> notes (ui (createNote silent_backend (demo_ui\<lparr>file := Some photo\<rparr>) 0)) = notes demo_ui @ [None]
   \<and> file (ui (createNote silent_backend (demo_ui\<lparr>file := Some photo\<rparr>) 0)) = None"
  using createNote_null_data
          [where s = "demo_ui\<lparr>file := Some photo\<rparr>" and B = silent_backend and w = 0 and ?w1.0 = 1]
  by (simp add: demo_ui_def silent_backend_def demo_backend_def draft_def)

section \<open>createNote: a path but no URL yet\<close>

text \<open>
  Claim C10.  After a create with a file in which every call succeeds and the store returns
  the updated record carrying the uploaded path, the entry appended to the list is that
  record with its \<^verbatim>\<open>imagePath\<close> set and without an \<^verbatim>\<open>imageUrl\<close>: no run of \<open>createNote\<close> issues a
  \<^verbatim>\<open>getUrl\<close> call.  After any later fetch that does not fail and in which the store lists
  that record, the list holds the record with an \<^verbatim>\<open>imageUrl\<close>.
\<close>

theorem createNote_attaches_path_without_url:
  assumes valid: "title' (formData s) \<noteq> [] \<and> content' (formData s) \<noteq> []"
      and sel: "file s = Some fl"
      and created: "Note_create B (draft s) w = (Inr (Resp (Some nn)), w1)"
      and uploaded: "uploadData B (''images/'' @ id' nn @ ''-'' @ name fl) fl (type' fl) w1 = (Inr result_path, w2)"
      and updated: "Note_update B [(''id'', id' nn), (''imagePath'', result_path)] w2 = (Inr (Resp (Some r)), w3)"
      and carried: "imagePath r = Some result_path \<and> result_path \<noteq> []"
  shows "notes (ui (createNote B s w)) = notes s @ [Some \<lparr>stored = r, imageUrl = None\<rparr>]
       \<and> imagePath (stored \<lparr>stored = r, imageUrl = None\<rparr>) = Some result_path
       \<and> (\<forall>p. GetUrlCall p \<notin> set (calls (trace (createNote B s w))))
       \<and> (\<not> fetch_fails B' w' \<and> r \<in> set (listed B' w') \<longrightarrow>
            (\<exists>u. Some \<lparr>stored = r, imageUrl = Some u\<rparr>
                    \<in> set (notes (ui (fetchNotes B' (ui (createNote B s w)) w')))))"
proof -
  have 1: "notes (ui (createNote B s w)) = notes s @ [Some \<lparr>stored = r, imageUrl = None\<rparr>]"
    using createNote_attached(2) [OF _ _ created sel uploaded, of "Some r"] valid updated
    by (simp add: plain_def)
  have 2: "imagePath (stored \<lparr>stored = r, imageUrl = None\<rparr>) = Some result_path"
    using carried by simp
  have t: "truthy (imagePath r)"
    using carried by (simp add: truthy_def)
  have 4: "\<not> fetch_fails B' w' \<and> r \<in> set (listed B' w') \<longrightarrow>
            (\<exists>u. Some \<lparr>stored = r, imageUrl = Some u\<rparr>
                    \<in> set (notes (ui (fetchNotes B' (ui (createNote B s w)) w'))))"
    using fetchNotes_resolves_listed [of B' w' r, OF _ _ t] by (auto simp: with_url_def)
  from 1 2 4 show ?thesis by (simp add: createNote_no_getUrl)
qed

theorem createNote_attaches_path_without_url_witness:
  "Note_create demo_backend (draft (demo_ui\<lparr>file := Some photo\<rparr>)) 0
       = (Inr (Resp (Some \<lparr>id' = ''123'', title = ''A'', content = ''B'', imagePath = None\<rparr>)), 1)
   \<and> uploadData demo_backend ''images/123-photo.png'' photo ''image/png'' 1
       = (Inr ''images/123-photo.png'', 2)
   \<and> Note_update demo_backend [(''id'', ''123''), (''imagePath'', ''images/123-photo.png'')] 2
       = (Inr (Resp (Some attached_record)), 3)
   \<and> notes (ui (createNote demo_backend (demo_ui\<lparr>file := Some photo\<rparr>) 0))
       = notes demo_ui @ [Some \<lparr>stored = attached_record, imageUrl = None\<rparr>]
   \<and> imagePath attached_record = Some ''images/123-photo.png''
   \<and> \<not> fetch_fails later_backend 3
   \<and> attached_record \<in> set (listed later_backend 3)
   \<and> (\<exists>u. Some \<lparr>stored = attached_record, imageUrl = Some u\<rparr>
             \<in> set (notes (ui (fetchNotes later_backend
                                 (ui (createNote demo_backend (demo_ui\<lparr>file := Some photo\<rparr>) 0)) 3))))"
proof -
  have valid: "title' (formData (demo_ui\<lparr>file := Some photo\<rparr>)) \<noteq> []
             \<and> content' (formData (demo_ui\<lparr>file := Some photo\<rparr>)) \<noteq> []"
    by (simp add: demo_ui_def)
  have sel: "file (demo_ui\<lparr>file := Some photo\<rparr>) = Some photo"
    by simp
  have created: "Note_create demo_backend (draft (demo_ui\<lparr>file := Some photo\<rparr>)) 0
       = (Inr (Resp (Some \<lparr>id' = ''123'', title = ''A'', content = ''B'', imagePath = None\<rparr>)), 1)"
    by (simp add: demo_ui_def demo_backend_def draft_def field_def)
  have uploaded: "uploadData demo_backend
         (''images/'' @ id' \<lparr>id' = ''123'', title = ''A'', content = ''B'', imagePath = None\<rparr> @ ''-'' @ name photo)
         photo (type' photo) 1 = (Inr ''images/123-photo.png'', 2)"
    by (simp add: demo_backend_def photo_def)
  have updated: "Note_update demo_backend
         [(''id'', id' \<lparr>id' = ''123'', title = ''A'', content = ''B'', imagePath = None\<rparr>),
          (''imagePath'', ''images/123-photo.png'')] 2
       = (Inr (Resp (Some attached_record)), 3)"
    by (simp add: demo_backend_def field_def attached_record_def)
  have carried: "imagePath attached_record = Some ''images/123-photo.png'' \<and> ''images/123-photo.png'' \<noteq> []"
    by (simp add: attached_record_def)
  have ok: "\<not> fetch_fails later_backend 3"
    by (simp add: fetch_fails_def later_backend_def demo_backend_def demo_records_def
          attached_record_def items_of_def truthy_def)
  have l: "attached_record \<in> set (listed later_backend 3)"
    by (simp add: listed_def later_backend_def demo_backend_def items_of_def)
  from createNote_attaches_path_without_url
         [OF valid sel created uploaded updated carried, where B' = later_backend and w' = 3]
       ok l created uploaded updated carried
  show ?thesis by (simp add: photo_def)
qed

end
